theory Spec2Isabelle
  imports Main "HOL-Library.Word" "HOL-Library.AList"
begin

section \<open>Data model\<close>

text \<open>
  A shallow embedding of the SGX runtime provisioner of oasis-core
  (\<^verbatim>\<open>go/runtime/host/sgx\<close>): the ECDSA TEE state (\<^verbatim>\<open>teeStateECDSA\<close>), the mock TEE state,
  the dispatching \<^verbatim>\<open>teeState\<close>, \<^verbatim>\<open>updateCapabilityTEE\<close>, the attestation worker and
  the attestation metrics.

  Go's \<^verbatim>\<open>error\<close> values are modelled by their dynamic shape: \<^verbatim>\<open>fmt.Errorf\<close> without
  \<^verbatim>\<open>%w\<close> is \<open>Errorf\<close>, \<^verbatim>\<open>fmt.Errorf\<close> with \<^verbatim>\<open>%w\<close> is \<open>Wrapf\<close> (the text before the wrapped
  error, and the wrapped error), \<^verbatim>\<open>*pcs.TCBOutOfDateError\<close> is the one error type the
  code inspects with \<^verbatim>\<open>errors.As\<close>, and \<open>CollaboratorError\<close> is an opaque error of a
  collaborator (AESM, PCS, registry, enclave transport, decoder).
\<close>

type_synonym bytes = "8 word list"
type_synonym namespace = string
type_synonym fmspc = bytes
type_synonym time = int

datatype error =
    Errorf string
  | Wrapf string error
  | TCBOutOfDateError string "string list"
  | CollaboratorError string

text \<open>\<^verbatim>\<open>errors.As(err, &tcbErr)\<close> with \<^verbatim>\<open>tcbErr *pcs.TCBOutOfDateError\<close>: the first error
  of that type in the chain of wrapped errors.\<close>

fun errors_As_TCBOutOfDateError :: "error \<Rightarrow> error option" where
  "errors_As_TCBOutOfDateError (TCBOutOfDateError s a) = Some (TCBOutOfDateError s a)"
| "errors_As_TCBOutOfDateError (Wrapf m e) = errors_As_TCBOutOfDateError e"
| "errors_As_TCBOutOfDateError (Errorf m) = None"
| "errors_As_TCBOutOfDateError (CollaboratorError m) = None"

text \<open>An error has a type of its own when it is neither the string error nor the
  wrapping error that \<^verbatim>\<open>fmt.Errorf\<close> builds.\<close>

fun typed_error :: "error \<Rightarrow> bool" where
  "typed_error (Errorf m) = False"
| "typed_error (Wrapf m e) = False"
| "typed_error (TCBOutOfDateError s a) = True"
| "typed_error (CollaboratorError m) = True"

text \<open>The outcome of a Go call that returns a value and an error, or panics.\<close>

datatype 'a result = Ok 'a | Err error | Panic string

datatype attestation_key_type = AttestationKeyECDSA_P256 | AttestationKeyEPID | AttestationKeyOther nat

record attestation_key_id =
  key_index :: nat
  key_type :: attestation_key_type

datatype certification_data =
    CertificationData_PCKCertificateChain bytes
  | CertificationData_PPID bytes
  | CertificationData_Other string

datatype quote_signature =
    QuoteSignatureECDSA_P256 certification_data
  | QuoteSignatureOther string

record quote =
  quote_report :: bytes
  quote_signature :: quote_signature

record pck_info =
  FMSPC :: fmspc
  pck_cpusvn :: bytes
  pck_pcesvn :: nat

record tcb_bundle =
  tcb_info :: string
  qe_identity :: string
  nextUpdate :: time

record quote_policy =
  tcb_validity_period :: nat
  min_tcb_evaluation_number :: nat

record sgx_policy =
  policy_PCS :: "quote_policy option"

record quote_bundle =
  bundle_quote :: bytes
  bundle_tcb :: tcb_bundle

record sgx_attestation =
  att_version :: nat
  att_quote :: quote_bundle
  att_height :: nat
  att_signature :: bytes

record capability_tee =
  cap_RAK :: bytes
  cap_REK :: bytes
  cap_attestation :: sgx_attestation

text \<open>\<^verbatim>\<open>protocol.Body\<close>: the messages the driver exchanges with the enclave, and
  \<open>OtherBody\<close> for a body in which the field the driver reads is nil.\<close>

datatype body =
    RuntimeCapabilityTEERakInitRequest bytes
  | RuntimeCapabilityTEERakReportRequest
  | RuntimeCapabilityTEERakQuoteRequest quote_bundle
  | RuntimeCapabilityTEERakReportResponse bytes bytes bytes string
  | RuntimeCapabilityTEERakQuoteResponse nat bytes
  | OtherBody

record consensus_parameters =
  has_TEEFeatures :: bool
  SGX_PCS :: bool

subsection \<open>The TCB cache\<close>

text \<open>Modelled from the spec: the type \<^verbatim>\<open>tcbCache\<close> and its methods \<^verbatim>\<open>check\<close>,
  \<^verbatim>\<open>cache\<close> and the constructor \<^verbatim>\<open>newTcbCache\<close> are not among the source files.
  Section 4.4: an entry per FMSPC holds the bundle, \<open>fetched_at\<close> and
  \<open>next_refresh_at\<close>; \<open>lookup\<close> returns the cached bundle and \<open>should_refresh\<close>, true
  when no entry exists or \<open>now \<ge> next_refresh_at\<close>; \<open>store\<close> sets
  \<open>next_refresh_at = min (nextUpdate - safety_margin) (now + refresh_interval)\<close>
  with a refresh interval of one hour and a safety margin of 15 minutes (seconds here).\<close>

record tcb_cache_entry =
  entry_bundle :: tcb_bundle
  fetched_at :: time
  next_refresh_at :: time

type_synonym tcbCache = "(fmspc \<times> tcb_cache_entry) list"

definition refresh_interval :: time where
  "refresh_interval = 3600"

definition safety_margin :: time where
  "safety_margin = 900"

definition tcbCache_check :: "tcbCache \<Rightarrow> time \<Rightarrow> fmspc \<Rightarrow> tcb_bundle option \<times> bool" where
  "tcbCache_check c now f =
     (case map_of c f of
        None \<Rightarrow> (None, True)
      | Some e \<Rightarrow> (Some (entry_bundle e), next_refresh_at e \<le> now))"

definition tcbCache_cache :: "tcbCache \<Rightarrow> time \<Rightarrow> tcb_bundle \<Rightarrow> fmspc \<Rightarrow> tcbCache" where
  "tcbCache_cache c now b f =
     AList.update f
       \<lparr>entry_bundle = b, fetched_at = now,
        next_refresh_at = min (nextUpdate b - safety_margin) (now + refresh_interval)\<rparr> c"

subsection \<open>Collaborators and the host state\<close>

text \<open>
  Every call the driver makes to a collaborator is recorded, in order, in the trace of
  the host state. A collaborator may answer differently each time it is asked: its
  answer is a function of the number of calls made so far (the length of the trace)
  and of the arguments. The pure functions of package \<^verbatim>\<open>pcs\<close> that the driver uses
  (\<^verbatim>\<open>Quote.UnmarshalBinary\<close>, \<^verbatim>\<open>VerifyPCK\<close>, \<^verbatim>\<open>Quote.Verify\<close>, \<^verbatim>\<open>NewMockQuote\<close>), the
  helper \<^verbatim>\<open>getQuotePolicies\<close> and the EPID implementation are not among the source
  files; they are parameters of the model.
\<close>

datatype event =
    EvRegistryConsensusParameters
  | EvAesmGetAttestationKeyIDs
  | EvAesmGetTargetInfo attestation_key_id
  | EvAesmGetQuoteEx attestation_key_id bytes
  | EvGetQuotePolicies
  | EvPcsGetTCBBundle fmspc
  | EvQuoteVerify quote "quote_policy option" tcb_bundle bool
  | EvTcbCacheCheck fmspc
  | EvTcbCacheStore tcb_bundle fmspc
  | EvConnCall body
  | EvEpidInit
  | EvEpidUpdate bytes string
  | EvTickerReset
  | EvEmitUpdated capability_tee

record world =
  registry_ConsensusParameters :: "nat \<Rightarrow> error + consensus_parameters"
  aesm_GetAttestationKeyIDs :: "nat \<Rightarrow> error + attestation_key_id list"
  aesm_GetTargetInfo :: "nat \<Rightarrow> attestation_key_id \<Rightarrow> error + bytes"
  aesm_GetQuoteEx :: "nat \<Rightarrow> attestation_key_id \<Rightarrow> bytes \<Rightarrow> error + bytes"
  quote_UnmarshalBinary :: "bytes \<Rightarrow> error + quote"
  VerifyPCK :: "quote_signature \<Rightarrow> time \<Rightarrow> error + pck_info"
  getQuotePolicies :: "nat \<Rightarrow> error + sgx_policy option"
  quote_Verify :: "quote \<Rightarrow> quote_policy option \<Rightarrow> time \<Rightarrow> tcb_bundle \<Rightarrow> error option"
  pcs_GetTCBBundle :: "nat \<Rightarrow> fmspc \<Rightarrow> tcb_bundle option \<times> error option"
  conn_Call :: "nat \<Rightarrow> body \<Rightarrow> error + body"
  time_Now :: "nat \<Rightarrow> time"
  serviceStore_load :: "nat \<Rightarrow> tcbCache"
  NewMockQuote :: "bytes \<Rightarrow> error + bytes"
  epid_Init :: "nat \<Rightarrow> error + bytes"
  epid_Update :: "nat \<Rightarrow> bytes \<Rightarrow> string \<Rightarrow> error + sgx_attestation"
  LatestSGXAttestationVersion :: nat

record host_state =
  trace :: "event list"
  teeAttestationsPerformed :: "namespace \<Rightarrow> nat"
  teeAttestationsSuccessful :: "namespace \<Rightarrow> nat"
  teeAttestationsFailed :: "namespace \<Rightarrow> nat"

definition tick :: "host_state \<Rightarrow> nat" where
  "tick st = length (trace st)"

definition record_event :: "event \<Rightarrow> host_state \<Rightarrow> host_state" where
  "record_event e st = st\<lparr>trace := trace st @ [e]\<rparr>"

text \<open>Modelled from the spec: \<^verbatim>\<open>newTcbCache(sp.serviceStore, sp.logger)\<close> is not among
  the source files. The cache is persisted through a key/value collaborator and
  reloaded at startup: the new cache holds what the store holds at that moment.\<close>

definition newTcbCache :: "world \<Rightarrow> host_state \<Rightarrow> tcbCache" where
  "newTcbCache w st = serviceStore_load w (tick st)"

section \<open>The ECDSA TEE state\<close>

text \<open>\<^verbatim>\<open>teeStateECDSA\<close> with the two fields of the embedded \<^verbatim>\<open>teeStateImplCommon\<close>.
  A value of this type is reachable only through \<^verbatim>\<open>teeState.impl\<close>, which is
  assigned after \<^verbatim>\<open>Init\<close> has succeeded and has assigned all four fields.\<close>

record teeStateECDSA =
  ec_runtimeID :: namespace
  ec_version :: nat
  ec_key :: attestation_key_id
  ec_tcbCache :: tcbCache

text \<open>The loop of \<^verbatim>\<open>Init\<close> over the attestation keys: the first ECDSA-capable key.\<close>

fun first_ECDSA_key :: "attestation_key_id list \<Rightarrow> attestation_key_id option" where
  "first_ECDSA_key [] = None"
| "first_ECDSA_key (akey # akeys) =
     (if key_type akey = AttestationKeyECDSA_P256 then Some akey else first_ECDSA_key akeys)"

definition teeStateECDSA_Init ::
  "world \<Rightarrow> host_state \<Rightarrow> namespace \<Rightarrow> nat \<Rightarrow> (error + bytes \<times> teeStateECDSA) \<times> host_state" where
  "teeStateECDSA_Init w st runtimeID version =
     (let st1 = record_event EvRegistryConsensusParameters st in
      case registry_ConsensusParameters w (tick st) of
        Inl err \<Rightarrow> (Inl (Wrapf ''unable to determine registry consensus parameters: '' err), st1)
      | Inr regParams \<Rightarrow>
          if \<not> has_TEEFeatures regParams \<or> \<not> SGX_PCS regParams
          then (Inl (Errorf ''ECDSA not supported by the registry''), st1)
          else
            (let st2 = record_event EvAesmGetAttestationKeyIDs st1 in
             case aesm_GetAttestationKeyIDs w (tick st1) of
               Inl err \<Rightarrow> (Inl (Wrapf ''unable to fetch attestation key IDs: '' err), st2)
             | Inr akeys \<Rightarrow>
                 (case first_ECDSA_key akeys of
                    None \<Rightarrow> (Inl (Errorf ''no suitable ECDSA attestation keys found''), st2)
                  | Some key \<Rightarrow>
                      (let st3 = record_event (EvAesmGetTargetInfo key) st2 in
                       case aesm_GetTargetInfo w (tick st2) key of
                         Inl err \<Rightarrow> (Inl err, st3)
                       | Inr targetInfo \<Rightarrow>
                           (Inr (targetInfo,
                                 \<lparr>ec_runtimeID = runtimeID, ec_version = version, ec_key = key,
                                  ec_tcbCache = newTcbCache w st3\<rparr>), st3)))))"

text \<open>\<^verbatim>\<open>verifyBundle\<close> returns a nil error exactly when the bundle is not nil and the
  quote verifies against it; the model returns the verified bundle in that case, so
  that a caller that goes on with the bundle has it.\<close>

definition teeStateECDSA_verifyBundle ::
  "world \<Rightarrow> quote \<Rightarrow> quote_policy option \<Rightarrow> tcb_bundle option \<Rightarrow> string \<Rightarrow> host_state
     \<Rightarrow> (error + tcb_bundle) \<times> host_state" where
  "teeStateECDSA_verifyBundle w q quotePolicy tcbBundle which st =
     (case tcbBundle of
        None \<Rightarrow> (Inl (Errorf ''nil bundle is not valid''), st)
      | Some b \<Rightarrow>
          (let err = quote_Verify w q quotePolicy (time_Now w (tick st)) b;
               st1 = record_event (EvQuoteVerify q quotePolicy b (err = None)) st
           in case err of
                None \<Rightarrow> (Inr b, st1)
              | Some e \<Rightarrow>
                  (case errors_As_TCBOutOfDateError e of
                     Some tcbErr \<Rightarrow> (Inl tcbErr, st1)
                   | None \<Rightarrow>
                       (Inl (Wrapf (''quote verification failed ('' @ which @ '' bundle): '') e),
                        st1))))"

text \<open>The three uses of collaborators by the bundle selection of \<^verbatim>\<open>Update\<close>, each
  with the call recorded: \<^verbatim>\<open>ec.tcbCache.check\<close>, \<^verbatim>\<open>ec.tcbCache.cache\<close> and
  \<^verbatim>\<open>sp.pcs.GetTCBBundle\<close>.\<close>

definition cache_check ::
  "world \<Rightarrow> teeStateECDSA \<Rightarrow> fmspc \<Rightarrow> host_state \<Rightarrow> (tcb_bundle option \<times> bool) \<times> host_state" where
  "cache_check w ec f st =
     (tcbCache_check (ec_tcbCache ec) (time_Now w (tick st)) f, record_event (EvTcbCacheCheck f) st)"

definition cache_store ::
  "world \<Rightarrow> teeStateECDSA \<Rightarrow> tcb_bundle \<Rightarrow> fmspc \<Rightarrow> host_state \<Rightarrow> teeStateECDSA \<times> host_state" where
  "cache_store w ec b f st =
     (ec\<lparr>ec_tcbCache := tcbCache_cache (ec_tcbCache ec) (time_Now w (tick st)) b f\<rparr>,
      record_event (EvTcbCacheStore b f) st)"

definition pcs_fetch ::
  "world \<Rightarrow> fmspc \<Rightarrow> host_state \<Rightarrow> (tcb_bundle option \<times> error option) \<times> host_state" where
  "pcs_fetch w f st = (pcs_GetTCBBundle w (tick st) f, record_event (EvPcsGetTCBBundle f) st)"

text \<open>The function literal of \<^verbatim>\<open>Update\<close> that selects the TCB bundle, in two parts:
  \<open>Update_tcbBundle_cached\<close> is the code after the \<^verbatim>\<open>if refresh\<close> block (the cached
  bundle, then the forced download), \<open>Update_tcbBundle\<close> the whole literal.\<close>

definition Update_tcbBundle_cached ::
  "world \<Rightarrow> teeStateECDSA \<Rightarrow> quote \<Rightarrow> quote_policy option \<Rightarrow> fmspc \<Rightarrow> tcb_bundle option \<Rightarrow> bool
     \<Rightarrow> host_state \<Rightarrow> (error + tcb_bundle) \<times> teeStateECDSA \<times> host_state" where
  "Update_tcbBundle_cached w ec q quotePolicy f cached refresh st =
     (case teeStateECDSA_verifyBundle w q quotePolicy cached ''cached'' st of
        (Inr b, st1) \<Rightarrow> (Inr b, ec, st1)
      | (Inl err, st1) \<Rightarrow>
          if refresh
          then (Inl (Wrapf ''both fresh and cached TCB bundles failed verification, cached error: '' err),
                ec, st1)
          else
            (case pcs_fetch w f st1 of
               ((fresh, Some err), st2) \<Rightarrow> (Inl err, ec, st2)
             | ((fresh, None), st2) \<Rightarrow>
                 (case teeStateECDSA_verifyBundle w q quotePolicy fresh ''downloaded'' st2 of
                    (Inl err, st3) \<Rightarrow> (Inl err, ec, st3)
                  | (Inr b, st3) \<Rightarrow>
                      (let (ec', st4) = cache_store w ec b f st3 in (Inr b, ec', st4)))))"

definition Update_tcbBundle ::
  "world \<Rightarrow> teeStateECDSA \<Rightarrow> quote \<Rightarrow> quote_policy option \<Rightarrow> fmspc
     \<Rightarrow> host_state \<Rightarrow> (error + tcb_bundle) \<times> teeStateECDSA \<times> host_state" where
  "Update_tcbBundle w ec q quotePolicy f st =
     (case cache_check w ec f st of
        ((cached, refresh), st1) \<Rightarrow>
          if refresh
          then
            (case pcs_fetch w f st1 of
               ((fresh, ferr), st2) \<Rightarrow>
                 (case teeStateECDSA_verifyBundle w q quotePolicy fresh ''fresh'' st2 of
                    (Inr b, st3) \<Rightarrow>
                      (let (ec', st4) = cache_store w ec b f st3 in (Inr b, ec', st4))
                  | (Inl err, st3) \<Rightarrow>
                      Update_tcbBundle_cached w ec q quotePolicy f cached refresh st3))
          else Update_tcbBundle_cached w ec q quotePolicy f cached refresh st1)"

text \<open>The end of \<^verbatim>\<open>Update\<close>: the \<^verbatim>\<open>RakQuote\<close> call to the enclave with the quote and
  the TCB bundle, and the attestation built from the answer. \<^verbatim>\<open>cbor.Marshal\<close> is
  injective; the model returns the structure it encodes.
  \<^verbatim>\<open>node.LatestSGXAttestationVersion\<close> is declared outside the source files and
  is a parameter of the world.\<close>

definition Update_RakQuote ::
  "world \<Rightarrow> quote_bundle \<Rightarrow> host_state \<Rightarrow> (error + sgx_attestation) \<times> host_state" where
  "Update_RakQuote w qb st =
     (let st1 = record_event (EvConnCall (RuntimeCapabilityTEERakQuoteRequest qb)) st in
      case conn_Call w (tick st) (RuntimeCapabilityTEERakQuoteRequest qb) of
        Inl err \<Rightarrow> (Inl (Wrapf ''error while configuring quote: '' err), st1)
      | Inr (RuntimeCapabilityTEERakQuoteResponse height sig) \<Rightarrow>
          (Inr \<lparr>att_version = LatestSGXAttestationVersion w, att_quote = qb, att_height = height,
                att_signature = sig\<rparr>, st1)
      | Inr _ \<Rightarrow> (Inl (Errorf ''unexpected response from runtime''), st1))"

text \<open>\<^verbatim>\<open>Update\<close> from the PCK verification on (the quote carries a PCK certificate
  chain).\<close>

definition Update_withPCK ::
  "world \<Rightarrow> teeStateECDSA \<Rightarrow> bytes \<Rightarrow> quote \<Rightarrow> host_state
     \<Rightarrow> (error + sgx_attestation) \<times> teeStateECDSA \<times> host_state" where
  "Update_withPCK w ec rawQuote q st =
     (case VerifyPCK w (quote_signature q) (time_Now w (tick st)) of
        Inl err \<Rightarrow> (Inl (Wrapf ''PCK verification failed: '' err), ec, st)
      | Inr pckInfo \<Rightarrow>
          (let st1 = record_event EvGetQuotePolicies st in
           case getQuotePolicies w (tick st) of
             Inl err \<Rightarrow> (Inl err, ec, st1)
           | Inr policies \<Rightarrow>
               (let quotePolicy = (case policies of None \<Rightarrow> None | Some p \<Rightarrow> policy_PCS p) in
                case Update_tcbBundle w ec q quotePolicy (FMSPC pckInfo) st1 of
                  (Inl err, ec', st2) \<Rightarrow> (Inl err, ec', st2)
                | (Inr tcbBundle, ec', st2) \<Rightarrow>
                    (case Update_RakQuote w
                            \<lparr>bundle_quote = rawQuote, bundle_tcb = tcbBundle\<rparr> st2 of
                       (r, st3) \<Rightarrow> (r, ec', st3)))))"

definition teeStateECDSA_Update ::
  "world \<Rightarrow> teeStateECDSA \<Rightarrow> bytes \<Rightarrow> string \<Rightarrow> host_state
     \<Rightarrow> (error + sgx_attestation) \<times> teeStateECDSA \<times> host_state" where
  "teeStateECDSA_Update w ec report nonce st =
     (let st1 = record_event (EvAesmGetQuoteEx (ec_key ec) report) st in
      case aesm_GetQuoteEx w (tick st) (ec_key ec) report of
        Inl err \<Rightarrow> (Inl (Wrapf ''failed to get quote: '' err), ec, st1)
      | Inr rawQuote \<Rightarrow>
          (case quote_UnmarshalBinary w rawQuote of
             Inl err \<Rightarrow> (Inl (Wrapf ''failed to parse quote: '' err), ec, st1)
           | Inr q \<Rightarrow>
               (case quote_signature q of
                  QuoteSignatureOther keyType \<Rightarrow>
                    (Inl (Errorf (''unsupported attestation key type: '' @ keyType)), ec, st1)
                | QuoteSignatureECDSA_P256 certificationData \<Rightarrow>
                    (case certificationData of
                       CertificationData_PCKCertificateChain chain \<Rightarrow>
                         Update_withPCK w ec rawQuote q st1
                     | CertificationData_PPID ppid \<Rightarrow>
                         (Inl (Errorf ''PPID certification data not yet supported; please install a quote provider''),
                          ec, st1)
                     | CertificationData_Other dataType \<Rightarrow>
                         (Inl (Errorf (''unsupported certification data type: '' @ dataType)),
                          ec, st1)))))"

section \<open>The TEE state and the driver\<close>

text \<open>The EPID implementation (\<^verbatim>\<open>teeStateEPID\<close>) is not among the source files: its
  \<^verbatim>\<open>Init\<close> and \<^verbatim>\<open>Update\<close> are collaborators of the model, and its state is opaque.\<close>

definition teeStateEPID_Init :: "world \<Rightarrow> host_state \<Rightarrow> (error + bytes) \<times> host_state" where
  "teeStateEPID_Init w st = (epid_Init w (tick st), record_event EvEpidInit st)"

definition teeStateEPID_Update ::
  "world \<Rightarrow> bytes \<Rightarrow> string \<Rightarrow> host_state \<Rightarrow> (error + sgx_attestation) \<times> host_state" where
  "teeStateEPID_Update w report nonce st =
     (epid_Update w (tick st) report nonce, record_event (EvEpidUpdate report nonce) st)"

datatype teeStateImpl = ImplECDSA teeStateECDSA | ImplEPID

record teeState =
  ts_runtimeID :: namespace
  ts_version :: nat
  ts_impl :: "teeStateImpl option"

definition teeState_init ::
  "world \<Rightarrow> teeState \<Rightarrow> host_state \<Rightarrow> (error + bytes) \<times> teeState \<times> host_state" where
  "teeState_init w ts st =
     (case ts_impl ts of
        Some impl \<Rightarrow> (Inl (Errorf ''already initialized''), ts, st)
      | None \<Rightarrow>
          (case teeStateECDSA_Init w st (ts_runtimeID ts) (ts_version ts) of
             (Inr (targetInfo, implECDSA), st1) \<Rightarrow>
               (Inr targetInfo, ts\<lparr>ts_impl := Some (ImplECDSA implECDSA)\<rparr>, st1)
           | (Inl err, st1) \<Rightarrow>
               (case teeStateEPID_Init w st1 of
                  (Inl err, st2) \<Rightarrow> (Inl err, ts, st2)
                | (Inr targetInfo, st2) \<Rightarrow> (Inr targetInfo, ts\<lparr>ts_impl := Some ImplEPID\<rparr>, st2))))"

text \<open>\<^verbatim>\<open>updateTargetInfo\<close> calls \<^verbatim>\<open>Init\<close> of the implementation again, on the same
  object: when \<^verbatim>\<open>Init\<close> succeeds it has assigned the fields anew, when it fails it
  has assigned none.\<close>

definition teeState_updateTargetInfo ::
  "world \<Rightarrow> teeState \<Rightarrow> host_state \<Rightarrow> (error + bytes) \<times> teeState \<times> host_state" where
  "teeState_updateTargetInfo w ts st =
     (case ts_impl ts of
        None \<Rightarrow> (Inl (Errorf ''not initialized''), ts, st)
      | Some (ImplECDSA ec) \<Rightarrow>
          (case teeStateECDSA_Init w st (ts_runtimeID ts) (ts_version ts) of
             (Inr (targetInfo, ec'), st1) \<Rightarrow>
               (Inr targetInfo, ts\<lparr>ts_impl := Some (ImplECDSA ec')\<rparr>, st1)
           | (Inl err, st1) \<Rightarrow> (Inl err, ts, st1))
      | Some ImplEPID \<Rightarrow>
          (case teeStateEPID_Init w st of (r, st1) \<Rightarrow> (r, ts, st1)))"

subsection \<open>Metrics\<close>

text \<open>Modelled from the spec: the function \<^verbatim>\<open>updateAttestationMetrics(runtime string, err error)\<close>
  of package \<^verbatim>\<open>sgx\<close>, which \<^verbatim>\<open>teeState.update\<close> calls, is not among the source files.
  Section 7: three counters per runtime, \<open>attestations_performed\<close>,
  \<open>attestations_successful\<close> and \<open>attestations_failed\<close>; performed is incremented for
  every Update regardless of outcome, and exactly one of successful or failed is
  incremented alongside. (The exported \<^verbatim>\<open>UpdateAttestationMetrics\<close> of package
  \<^verbatim>\<open>sgx/common\<close>, which \<^verbatim>\<open>sgx.go\<close> does not import, increments the same three counters
  behind a check of \<^verbatim>\<open>metrics.Enabled()\<close>.) The counters are labelled by
  \<^verbatim>\<open>runtimeID.String()\<close>, an injective rendering of the runtime ID, which stands for
  the label here.\<close>

definition Inc :: "(namespace \<Rightarrow> nat) \<Rightarrow> namespace \<Rightarrow> namespace \<Rightarrow> nat" where
  "Inc counter runtime = counter(runtime := counter runtime + 1)"

definition updateAttestationMetrics :: "namespace \<Rightarrow> error option \<Rightarrow> host_state \<Rightarrow> host_state" where
  "updateAttestationMetrics runtime err st =
     (let st1 = st\<lparr>teeAttestationsPerformed := Inc (teeAttestationsPerformed st) runtime\<rparr> in
      if err \<noteq> None
      then st1\<lparr>teeAttestationsFailed := Inc (teeAttestationsFailed st1) runtime\<rparr>
      else st1\<lparr>teeAttestationsSuccessful := Inc (teeAttestationsSuccessful st1) runtime\<rparr>)"

definition error_of :: "error + 'a \<Rightarrow> error option" where
  "error_of r = (case r of Inl err \<Rightarrow> Some err | Inr v \<Rightarrow> None)"

definition teeState_update ::
  "world \<Rightarrow> teeState \<Rightarrow> bytes \<Rightarrow> string \<Rightarrow> host_state
     \<Rightarrow> (error + sgx_attestation) \<times> teeState \<times> host_state" where
  "teeState_update w ts report nonce st =
     (case ts_impl ts of
        None \<Rightarrow> (Inl (Errorf ''not initialized''), ts, st)
      | Some (ImplECDSA ec) \<Rightarrow>
          (case teeStateECDSA_Update w ec report nonce st of
             (attestation, ec', st1) \<Rightarrow>
               (attestation, ts\<lparr>ts_impl := Some (ImplECDSA ec')\<rparr>,
                updateAttestationMetrics (ts_runtimeID ts) (error_of attestation) st1))
      | Some ImplEPID \<Rightarrow>
          (case teeStateEPID_Update w report nonce st of
             (attestation, st1) \<Rightarrow>
               (attestation, ts,
                updateAttestationMetrics (ts_runtimeID ts) (error_of attestation) st1)))"

subsection \<open>updateCapabilityTEE and the attestation worker\<close>

definition sgxProvisioner_updateTargetInfo :: "world \<Rightarrow> bytes \<Rightarrow> host_state \<Rightarrow> error option \<times> host_state" where
  "sgxProvisioner_updateTargetInfo w targetInfo st =
     (case conn_Call w (tick st) (RuntimeCapabilityTEERakInitRequest targetInfo) of
        Inl err \<Rightarrow> Some err
      | Inr rsp \<Rightarrow> None,
      record_event (EvConnCall (RuntimeCapabilityTEERakInitRequest targetInfo)) st)"

text \<open>\<^verbatim>\<open>updateCapabilityTEE\<close> reads the fields of
  \<^verbatim>\<open>rakQuoteRes.RuntimeCapabilityTEERakReportResponse\<close> without a nil check: with any
  other body the read is a nil pointer dereference.\<close>

definition updateCapabilityTEE ::
  "world \<Rightarrow> teeState \<Rightarrow> host_state \<Rightarrow> capability_tee result \<times> teeState \<times> host_state" where
  "updateCapabilityTEE w ts st =
     (case teeState_updateTargetInfo w ts st of
        (Inl err, ts1, st1) \<Rightarrow>
          (Err (Wrapf ''error while updating TEE target info: '' err), ts1, st1)
      | (Inr targetInfo, ts1, st1) \<Rightarrow>
          (case sgxProvisioner_updateTargetInfo w targetInfo st1 of
             (Some err, st2) \<Rightarrow>
               (Err (Wrapf ''error while updating TEE target info: '' err), ts1, st2)
           | (None, st2) \<Rightarrow>
               (let st3 = record_event (EvConnCall RuntimeCapabilityTEERakReportRequest) st2 in
                case conn_Call w (tick st2) RuntimeCapabilityTEERakReportRequest of
                  Inl err \<Rightarrow>
                    (Err (Wrapf ''error while requesting worker quote and public RAK: '' err),
                     ts1, st3)
                | Inr (RuntimeCapabilityTEERakReportResponse rakPub rekPub report nonce) \<Rightarrow>
                    (case teeState_update w ts1 report nonce st3 of
                       (Inl err, ts2, st4) \<Rightarrow> (Err err, ts2, st4)
                     | (Inr attestation, ts2, st4) \<Rightarrow>
                         (Ok \<lparr>cap_RAK = rakPub, cap_REK = rekPub, cap_attestation = attestation\<rparr>,
                          ts2, st4))
                | Inr _ \<Rightarrow> (Panic ''nil pointer dereference'', ts1, st3))))"

text \<open>The attestation worker. What the \<^verbatim>\<open>select\<close> statement receives in each
  iteration is the input: the process has terminated, the ticker has fired, or a
  re-attestation was requested. With nothing more to receive the worker is blocked in
  the \<^verbatim>\<open>select\<close> (\<open>Waiting\<close>); it returns on process termination only, and a panic
  ends it.\<close>

datatype received = ProcessTerminated | TickerFired | NotifyUpdateCapabilityTEE

datatype worker_status = Returned | Waiting | Panicked

fun attestationWorker ::
  "world \<Rightarrow> received list \<Rightarrow> teeState \<Rightarrow> host_state \<Rightarrow> worker_status \<times> teeState \<times> host_state" where
  "attestationWorker w [] ts st = (Waiting, ts, st)"
| "attestationWorker w (r # rs) ts st =
     (case r of
        ProcessTerminated \<Rightarrow> (Returned, ts, st)
      | _ \<Rightarrow>
          (let st0 = (if r = NotifyUpdateCapabilityTEE then record_event EvTickerReset st else st) in
           case updateCapabilityTEE w ts st0 of
             (Err err, ts1, st1) \<Rightarrow> attestationWorker w rs ts1 st1
           | (Panic p, ts1, st1) \<Rightarrow> (Panicked, ts1, st1)
           | (Ok capabilityTEE, ts1, st1) \<Rightarrow>
               attestationWorker w rs ts1 (record_event (EvEmitUpdated capabilityTEE) st1)))"

section \<open>The mock TEE state\<close>

text \<open>\<^verbatim>\<open>teeStateMock\<close> is an empty struct. Modelled from the spec:
  \<^verbatim>\<open>sgxCommon.UpdateRuntimeQuote\<close> is not among the source files; it is the
  \<^verbatim>\<open>RakQuote\<close> call of the driver (the enclave is called with the quote and the TCB
  bundle, and the attestation is assembled from the height and signature it answers),
  as at the end of the ECDSA \<^verbatim>\<open>Update\<close>. The type assertion on the signature fails
  for any other signature; the text of that error is built from a nil
  \<^verbatim>\<open>*pcs.QuoteSignatureECDSA_P256\<close> by a method outside the source files and is the
  parameter \<open>keyType\<close> of the signature here.\<close>

definition teeStateMock_Init :: "world \<Rightarrow> host_state \<Rightarrow> (error + bytes) \<times> host_state" where
  "teeStateMock_Init w st =
     (let st1 = record_event EvRegistryConsensusParameters st in
      case registry_ConsensusParameters w (tick st) of
        Inl err \<Rightarrow> (Inl (Wrapf ''unable to determine registry consensus parameters: '' err), st1)
      | Inr regParams \<Rightarrow>
          if \<not> has_TEEFeatures regParams \<or> \<not> SGX_PCS regParams
          then (Inl (Errorf ''ECDSA not supported by the registry''), st1)
          else (Inr (replicate 512 0), st1))"

text \<open>The mock \<^verbatim>\<open>Update\<close> dereferences the bundle that \<^verbatim>\<open>GetTCBBundle\<close> returned
  without a nil check.\<close>

definition result_of :: "error + 'a \<Rightarrow> 'a result" where
  "result_of r = (case r of Inl err \<Rightarrow> Err err | Inr v \<Rightarrow> Ok v)"

definition teeStateMock_Update ::
  "world \<Rightarrow> bytes \<Rightarrow> string \<Rightarrow> host_state \<Rightarrow> sgx_attestation result \<times> host_state" where
  "teeStateMock_Update w report nonce st =
     (case NewMockQuote w report of
        Inl err \<Rightarrow> (Err (Wrapf ''failed to get quote: '' err), st)
      | Inr rawQuote \<Rightarrow>
          (case quote_UnmarshalBinary w rawQuote of
             Inl err \<Rightarrow> (Err (Wrapf ''failed to parse quote: '' err), st)
           | Inr q \<Rightarrow>
               (case quote_signature q of
                  QuoteSignatureOther keyType \<Rightarrow>
                    (Err (Errorf (''unsupported attestation key type: '' @ keyType)), st)
                | QuoteSignatureECDSA_P256 certificationData \<Rightarrow>
                    (case VerifyPCK w (quote_signature q) (time_Now w (tick st)) of
                       Inl err \<Rightarrow> (Err (Wrapf ''PCK verification failed: '' err), st)
                     | Inr pckInfo \<Rightarrow>
                         (case pcs_fetch w (FMSPC pckInfo) st of
                            ((tcbBundle, Some err), st1) \<Rightarrow> (Err err, st1)
                          | ((None, None), st1) \<Rightarrow> (Panic ''nil pointer dereference'', st1)
                          | ((Some b, None), st1) \<Rightarrow>
                              (case Update_RakQuote w \<lparr>bundle_quote = rawQuote, bundle_tcb = b\<rparr> st1 of
                                 (r, st2) \<Rightarrow> (result_of r, st2)))))))"

section \<open>Properties\<close>

text \<open>Predicates on traces and states in which the properties are stated, and the
  concrete worlds at which they are evaluated.\<close>

text \<open>The events the worker has emitted, the three counters, and the states that differ
  in neither.\<close>

fun is_emit :: "event \<Rightarrow> bool" where
  "is_emit (EvEmitUpdated c) = True"
| "is_emit _ = False"

definition emitted :: "host_state \<Rightarrow> event list" where
  "emitted st = filter is_emit (trace st)"

definition counters :: "host_state \<Rightarrow> (namespace \<Rightarrow> nat) \<times> (namespace \<Rightarrow> nat) \<times> (namespace \<Rightarrow> nat)" where
  "counters st = (teeAttestationsPerformed st, teeAttestationsSuccessful st, teeAttestationsFailed st)"

definition unobserved :: "host_state \<Rightarrow> host_state \<Rightarrow> bool" where
  "unobserved st st' \<longleftrightarrow> emitted st' = emitted st \<and> counters st' = counters st"

text \<open>A world whose enclave answers every \<^verbatim>\<open>RakReport\<close> request with the nonce \<open>n\<close>, and is otherwise
  the world \<open>w\<close>.\<close>

definition set_nonce :: "string \<Rightarrow> error + body \<Rightarrow> error + body" where
  "set_nonce n r =
     (case r of
        Inr (RuntimeCapabilityTEERakReportResponse rakPub rekPub report n0) \<Rightarrow>
          Inr (RuntimeCapabilityTEERakReportResponse rakPub rekPub report n)
      | _ \<Rightarrow> r)"

definition with_nonce :: "string \<Rightarrow> world \<Rightarrow> world" where
  "with_nonce n w = w\<lparr>conn_Call := \<lambda>t req. set_nonce n (conn_Call w t req)\<rparr>"

text \<open>Which implementation a TEE state has selected, the key of an ECDSA state, and the ECDSA
  states that agree on runtime ID, version and key.\<close>

datatype impl_kind = KindECDSA | KindEPID

definition impl_kind :: "teeState \<Rightarrow> impl_kind option" where
  "impl_kind ts =
     (case ts_impl ts of None \<Rightarrow> None | Some (ImplECDSA ec) \<Rightarrow> Some KindECDSA | Some ImplEPID \<Rightarrow> Some KindEPID)"

definition selected_key :: "teeState \<Rightarrow> attestation_key_id option" where
  "selected_key ts =
     (case ts_impl ts of Some (ImplECDSA ec) \<Rightarrow> Some (ec_key ec) | _ \<Rightarrow> None)"

definition same_identity :: "teeStateECDSA \<Rightarrow> teeStateECDSA \<Rightarrow> bool" where
  "same_identity ec ec' \<longleftrightarrow>
     ec_runtimeID ec' = ec_runtimeID ec \<and> ec_version ec' = ec_version ec \<and> ec_key ec' = ec_key ec"

text \<open>The collaborators let the ECDSA \<^verbatim>\<open>Init\<close> that starts in state \<open>st\<close> succeed; the registry
  enables PCS at that moment.\<close>

definition ecdsa_init_possible :: "world \<Rightarrow> host_state \<Rightarrow> bool" where
  "ecdsa_init_possible w st \<longleftrightarrow>
     (case registry_ConsensusParameters w (tick st) of
        Inl err \<Rightarrow> False
      | Inr regParams \<Rightarrow>
          has_TEEFeatures regParams \<and> SGX_PCS regParams \<and>
          (case aesm_GetAttestationKeyIDs w (Suc (tick st)) of
             Inl err \<Rightarrow> False
           | Inr akeys \<Rightarrow>
               (case first_ECDSA_key akeys of
                  None \<Rightarrow> False
                | Some key \<Rightarrow>
                    (case aesm_GetTargetInfo w (Suc (Suc (tick st))) key of
                       Inl err \<Rightarrow> False
                     | Inr targetInfo \<Rightarrow> True))))"

definition registry_allows_PCS :: "world \<Rightarrow> host_state \<Rightarrow> bool" where
  "registry_allows_PCS w st \<longleftrightarrow>
     (case registry_ConsensusParameters w (tick st) of
        Inl err \<Rightarrow> False
      | Inr regParams \<Rightarrow> has_TEEFeatures regParams \<and> SGX_PCS regParams)"

text \<open>Kinds of events.\<close>

fun is_epid_init :: "event \<Rightarrow> bool" where
  "is_epid_init EvEpidInit = True"
| "is_epid_init _ = False"


fun is_store :: "event \<Rightarrow> bool" where
  "is_store (EvTcbCacheStore b f) = True"
| "is_store _ = False"

text \<open>In a list of events, every store into the TCB cache comes immediately after a successful
  verification of the same bundle against the quote \<open>q\<close> and the policy \<open>pol\<close>.\<close>

fun stores_verified :: "quote \<Rightarrow> quote_policy option \<Rightarrow> event list \<Rightarrow> bool" where
  "stores_verified q pol [] = True"
| "stores_verified q pol (EvTcbCacheStore b f # es) = False"
| "stores_verified q pol (EvQuoteVerify q' pol' b ok # EvTcbCacheStore b' f # es) =
     (q' = q \<and> pol' = pol \<and> b' = b \<and> ok \<and> stores_verified q pol es)"
| "stores_verified q pol (e # es) = stores_verified q pol es"

text \<open>The state \<open>st\<close> after the events \<open>evs\<close> have been recorded, one after the other.\<close>

definition after :: "host_state \<Rightarrow> event list \<Rightarrow> host_state" where
  "after st evs = st\<lparr>trace := trace st @ evs\<rparr>"

text \<open>The error, if any, with which \<^verbatim>\<open>verifyBundle\<close> rejects a bundle at the time \<open>t\<close>: a nil bundle is not
  valid; a bundle that \<^verbatim>\<open>quote.Verify\<close> rejects gives the error of \<^verbatim>\<open>quote.Verify\<close>, as it is when it
  is a \<^verbatim>\<open>TCBOutOfDateError\<close> and wrapped otherwise. The events of a rejected bundle: none for nil,
  one failed verification otherwise.\<close>

definition bundle_error ::
  "world \<Rightarrow> quote \<Rightarrow> quote_policy option \<Rightarrow> string \<Rightarrow> time \<Rightarrow> tcb_bundle option \<Rightarrow> error option" where
  "bundle_error w q pol which t tcbBundle =
     (case tcbBundle of
        None \<Rightarrow> Some (Errorf ''nil bundle is not valid'')
      | Some b \<Rightarrow>
          (case quote_Verify w q pol t b of
             None \<Rightarrow> None
           | Some e \<Rightarrow>
               (case errors_As_TCBOutOfDateError e of
                  Some tcbErr \<Rightarrow> Some tcbErr
                | None \<Rightarrow> Some (Wrapf (''quote verification failed ('' @ which @ '' bundle): '') e))))"

definition failed_verification :: "quote \<Rightarrow> quote_policy option \<Rightarrow> tcb_bundle option \<Rightarrow> event list" where
  "failed_verification q pol tcbBundle =
     (case tcbBundle of None \<Rightarrow> [] | Some b \<Rightarrow> [EvQuoteVerify q pol b False])"

text \<open>The result of \<^verbatim>\<open>Update\<close> once the bundle \<open>b\<close> is selected: the answer of the enclave to the
  \<^verbatim>\<open>RakQuote\<close> request that carries the quote and \<open>b\<close>; with it the TEE state and the state after the
  call.\<close>

definition rak_quote_result :: "world \<Rightarrow> bytes \<Rightarrow> tcb_bundle \<Rightarrow> host_state \<Rightarrow> error + sgx_attestation" where
  "rak_quote_result w rawQuote b st =
     (case conn_Call w (tick st)
             (RuntimeCapabilityTEERakQuoteRequest \<lparr>bundle_quote = rawQuote, bundle_tcb = b\<rparr>) of
        Inl err \<Rightarrow> Inl (Wrapf ''error while configuring quote: '' err)
      | Inr (RuntimeCapabilityTEERakQuoteResponse height sig) \<Rightarrow>
          Inr \<lparr>att_version = LatestSGXAttestationVersion w,
               att_quote = \<lparr>bundle_quote = rawQuote, bundle_tcb = b\<rparr>,
               att_height = height, att_signature = sig\<rparr>
      | Inr _ \<Rightarrow> Inl (Errorf ''unexpected response from runtime''))"

definition attest_with ::
  "world \<Rightarrow> bytes \<Rightarrow> tcb_bundle \<Rightarrow> teeStateECDSA \<Rightarrow> host_state
     \<Rightarrow> (error + sgx_attestation) \<times> teeStateECDSA \<times> host_state" where
  "attest_with w rawQuote b ec st =
     (rak_quote_result w rawQuote b st, ec,
      after st [EvConnCall (RuntimeCapabilityTEERakQuoteRequest \<lparr>bundle_quote = rawQuote, bundle_tcb = b\<rparr>)])"

text \<open>The PCS quote policy of the policies that \<^verbatim>\<open>getQuotePolicies\<close> returned, as \<^verbatim>\<open>Update\<close> takes it.\<close>

definition policy_of :: "sgx_policy option \<Rightarrow> quote_policy option" where
  "policy_of policies = (case policies of None \<Rightarrow> None | Some p \<Rightarrow> policy_PCS p)"

text \<open>What a bundle selection has done to the TEE state: nothing and no store, or one store of
  the bundle it returns, which verified.\<close>

definition stored_verified ::
  "world \<Rightarrow> quote \<Rightarrow> quote_policy option \<Rightarrow> fmspc \<Rightarrow> teeStateECDSA \<Rightarrow> error + tcb_bundle
     \<Rightarrow> teeStateECDSA \<Rightarrow> event list \<Rightarrow> bool" where
  "stored_verified w q pol f ec r ec' new \<longleftrightarrow>
     stores_verified q pol new \<and>
     ((ec' = ec \<and> filter is_store new = []) \<or>
      (\<exists>b n m. r = Inr b \<and> quote_Verify w q pol (time_Now w n) b = None
         \<and> ec' = ec\<lparr>ec_tcbCache := tcbCache_cache (ec_tcbCache ec) (time_Now w m) b f\<rparr>
         \<and> filter is_store new = [EvTcbCacheStore b f]))"

text \<open>Resets of the ticker.\<close>

fun is_reset :: "event \<Rightarrow> bool" where
  "is_reset EvTickerReset = True"
| "is_reset _ = False"

text \<open>Modelled from the spec: the notifier of the runtime handle, whose channel
  \<^verbatim>\<open>hp.NotifyUpdateCapabilityTEE\<close> the worker receives from; the code that sends on it is not among
  the source files. Section 5: the explicit-refresh notifier is level-triggered with coalescing.
  It is a buffer of capacity one: a send when the buffer is full is dropped. \<open>pending\<close> is the
  number of notifications in the buffer; the worker, its only reader, receives what is pending
  when it comes back to its \<^verbatim>\<open>select\<close>.\<close>

definition notifier_capacity :: nat where
  "notifier_capacity = 1"

definition notifier_send :: "nat \<Rightarrow> nat" where
  "notifier_send pending = min notifier_capacity (pending + 1)"

definition notifier_sends :: "nat \<Rightarrow> nat \<Rightarrow> nat" where
  "notifier_sends k pending = (notifier_send ^^ k) pending"

definition notifier_receives :: "nat \<Rightarrow> received list" where
  "notifier_receives pending = replicate pending NotifyUpdateCapabilityTEE"

text \<open>What the worker does with the result of \<^verbatim>\<open>updateCapabilityTEE\<close>: the event it emits on
  success, and how it goes on.\<close>

definition emit_result :: "capability_tee result \<Rightarrow> host_state \<Rightarrow> host_state" where
  "emit_result c st = (case c of Ok capabilityTEE \<Rightarrow> record_event (EvEmitUpdated capabilityTEE) st | _ \<Rightarrow> st)"

definition status_after :: "capability_tee result \<Rightarrow> worker_status" where
  "status_after c = (case c of Panic p \<Rightarrow> Panicked | _ \<Rightarrow> Waiting)"

subsection \<open>Concrete worlds\<close>

definition k_ecdsa :: attestation_key_id where
  "k_ecdsa = \<lparr>key_index = 1, key_type = AttestationKeyECDSA_P256\<rparr>"

definition k_ecdsa2 :: attestation_key_id where
  "k_ecdsa2 = \<lparr>key_index = 2, key_type = AttestationKeyECDSA_P256\<rparr>"

definition k_epid :: attestation_key_id where
  "k_epid = \<lparr>key_index = 0, key_type = AttestationKeyEPID\<rparr>"

definition b_fresh :: tcb_bundle where
  "b_fresh = \<lparr>tcb_info = ''fresh'', qe_identity = ''qe'', nextUpdate = 100000\<rparr>"

definition b_cached :: tcb_bundle where
  "b_cached = \<lparr>tcb_info = ''cached'', qe_identity = ''qe'', nextUpdate = 90000\<rparr>"

definition q_pck :: quote where
  "q_pck = \<lparr>quote_report = [1],
            quote_signature = QuoteSignatureECDSA_P256 (CertificationData_PCKCertificateChain [7])\<rparr>"

definition q_ppid :: quote where
  "q_ppid = \<lparr>quote_report = [1],
             quote_signature = QuoteSignatureECDSA_P256 (CertificationData_PPID [8])\<rparr>"

definition f0 :: fmspc where
  "f0 = [0, 144, 110, 213, 0, 0]"

text \<open>A world in which every collaborator answers: the registry enables PCS, the
  quoting service lists one ECDSA key, the PCS serves \<open>b_fresh\<close>, every bundle
  verifies and the enclave answers each request with the matching response.\<close>

definition w_happy :: world where
  "w_happy =
     \<lparr>registry_ConsensusParameters = (\<lambda>n. Inr \<lparr>has_TEEFeatures = True, SGX_PCS = True\<rparr>),
      aesm_GetAttestationKeyIDs = (\<lambda>n. Inr [k_epid, k_ecdsa]),
      aesm_GetTargetInfo = (\<lambda>n k. Inr [0]),
      aesm_GetQuoteEx = (\<lambda>n k report. Inr (2 # report)),
      quote_UnmarshalBinary = (\<lambda>raw. Inr q_pck),
      VerifyPCK = (\<lambda>s t. Inr \<lparr>FMSPC = f0, pck_cpusvn = [], pck_pcesvn = 0\<rparr>),
      getQuotePolicies = (\<lambda>n. Inr None),
      quote_Verify = (\<lambda>q p t b. None),
      pcs_GetTCBBundle = (\<lambda>n f. (Some b_fresh, None)),
      conn_Call = (\<lambda>n req.
         case req of
           RuntimeCapabilityTEERakQuoteRequest qb \<Rightarrow> Inr (RuntimeCapabilityTEERakQuoteResponse 5 [9])
         | RuntimeCapabilityTEERakReportRequest \<Rightarrow>
             Inr (RuntimeCapabilityTEERakReportResponse [1] [2] [3] ''nonce'')
         | _ \<Rightarrow> Inr OtherBody),
      time_Now = (\<lambda>n. int n),
      serviceStore_load = (\<lambda>n. []),
      NewMockQuote = (\<lambda>report. Inr (3 # report)),
      epid_Init = (\<lambda>n. Inr [4]),
      epid_Update = (\<lambda>n report nonce. Inl (CollaboratorError ''ias'')),
      LatestSGXAttestationVersion = 1\<rparr>"

text \<open>The quoting service returns a quote whose certification data is a PPID.\<close>

definition w_ppid :: world where
  "w_ppid = w_happy\<lparr>quote_UnmarshalBinary := \<lambda>raw. Inr q_ppid\<rparr>"

text \<open>No bundle verifies: the TCB is out of date.\<close>

definition w_strict :: world where
  "w_strict = w_happy\<lparr>quote_Verify := \<lambda>q p t b. Some (TCBOutOfDateError ''OutOfDate'' [''INTEL-SA-00334''])\<rparr>"

text \<open>The quoting service lists another ECDSA key once four calls have been made.\<close>

definition w_rekey :: world where
  "w_rekey = w_happy\<lparr>aesm_GetAttestationKeyIDs := \<lambda>n. if n < 4 then Inr [k_ecdsa] else Inr [k_ecdsa2]\<rparr>"

text \<open>The registry enables PCS and the quoting service lists no ECDSA key.\<close>

definition w_noecdsa :: world where
  "w_noecdsa = w_happy\<lparr>aesm_GetAttestationKeyIDs := \<lambda>n. Inr [k_epid]\<rparr>"

text \<open>The PCS is unreachable.\<close>

definition w_offline :: world where
  "w_offline = w_happy\<lparr>pcs_GetTCBBundle := \<lambda>n f. (None, Some (CollaboratorError ''pcs unreachable''))\<rparr>"

text \<open>An empty host state, a TEE state before \<^verbatim>\<open>init\<close>, ECDSA states with an empty cache and
  with a cached bundle whose refresh is due, and TEE states with the ECDSA and with the EPID implementation.\<close>

definition st0 :: host_state where
  "st0 = \<lparr>trace = [], teeAttestationsPerformed = (\<lambda>r. 0), teeAttestationsSuccessful = (\<lambda>r. 0),
          teeAttestationsFailed = (\<lambda>r. 0)\<rparr>"

definition ts0 :: teeState where
  "ts0 = \<lparr>ts_runtimeID = ''rt'', ts_version = 1, ts_impl = None\<rparr>"

definition ec0 :: teeStateECDSA where
  "ec0 = \<lparr>ec_runtimeID = ''rt'', ec_version = 1, ec_key = k_ecdsa, ec_tcbCache = []\<rparr>"

definition ec_cached :: teeStateECDSA where
  "ec_cached = ec0\<lparr>ec_tcbCache :=
     [(f0, \<lparr>entry_bundle = b_cached, fetched_at = 0, next_refresh_at = 0\<rparr>)]\<rparr>"

definition ts_ecdsa :: teeState where
  "ts_ecdsa = \<lparr>ts_runtimeID = ''rt'', ts_version = 1, ts_impl = Some (ImplECDSA ec0)\<rparr>"

definition ts_epid :: teeState where
  "ts_epid = \<lparr>ts_runtimeID = ''rt'', ts_version = 1, ts_impl = Some ImplEPID\<rparr>"

section \<open>Proofs\<close>

lemmas model_defs =
  teeStateECDSA_Init_def teeStateECDSA_verifyBundle_def cache_check_def cache_store_def
  pcs_fetch_def Update_tcbBundle_cached_def Update_tcbBundle_def Update_RakQuote_def
  Update_withPCK_def teeStateECDSA_Update_def teeStateEPID_Init_def teeStateEPID_Update_def
  teeState_init_def teeState_updateTargetInfo_def updateAttestationMetrics_def error_of_def
  teeState_update_def sgxProvisioner_updateTargetInfo_def updateCapabilityTEE_def
  teeStateMock_Init_def teeStateMock_Update_def result_of_def newTcbCache_def
  tcbCache_check_def tcbCache_cache_def refresh_interval_def safety_margin_def
  tick_def record_event_def Inc_def Let_def

lemmas world_defs =
  w_happy_def w_ppid_def w_strict_def w_rekey_def w_noecdsa_def w_offline_def st0_def ts0_def
  ec0_def ec_cached_def ts_ecdsa_def ts_epid_def k_ecdsa_def k_ecdsa2_def k_epid_def b_fresh_def b_cached_def
  q_pck_def q_ppid_def f0_def

subsection \<open>What the ECDSA Update leaves untouched\<close>

lemma tick_record_event [simp]: "tick (record_event e st) = Suc (tick st)"
  by (simp add: tick_def record_event_def)

lemma trace_record_event [simp]: "trace (record_event e st) = trace st @ [e]"
  by (simp add: record_event_def)

lemma unobserved_refl [simp]: "unobserved st st"
  by (simp add: unobserved_def)

lemma unobserved_trans: "unobserved st st1 \<Longrightarrow> unobserved st1 st2 \<Longrightarrow> unobserved st st2"
  by (simp add: unobserved_def)

lemma unobserved_record_event [simp]:
  "\<not> is_emit e \<Longrightarrow> unobserved st1 (record_event e st) = unobserved st1 st"
  by (simp add: unobserved_def emitted_def counters_def record_event_def)

lemma unobserved_record_event_left [simp]:
  "\<not> is_emit e \<Longrightarrow> unobserved (record_event e st) st1 = unobserved st st1"
  by (simp add: unobserved_def emitted_def counters_def record_event_def)

lemma verifyBundle_unobserved:
  "teeStateECDSA_verifyBundle w q pol b which st = (r, st') \<Longrightarrow> unobserved st st'"
  by (auto simp: teeStateECDSA_verifyBundle_def Let_def split: option.splits)

lemma cache_check_unobserved: "cache_check w ec f st = (r, st') \<Longrightarrow> unobserved st st'"
  by (auto simp: cache_check_def)

lemma cache_store_unobserved: "cache_store w ec b f st = (ec', st') \<Longrightarrow> unobserved st st'"
  by (auto simp: cache_store_def)

lemma pcs_fetch_unobserved: "pcs_fetch w f st = (r, st') \<Longrightarrow> unobserved st st'"
  by (auto simp: pcs_fetch_def)

lemma Update_tcbBundle_cached_unobserved:
  "Update_tcbBundle_cached w ec q pol f cached refresh st = (r, ec', st') \<Longrightarrow> unobserved st st'"
  by (auto simp: Update_tcbBundle_cached_def split: prod.splits sum.splits if_splits option.splits
      dest!: verifyBundle_unobserved pcs_fetch_unobserved cache_store_unobserved
      intro: unobserved_trans)

lemma Update_tcbBundle_unobserved:
  "Update_tcbBundle w ec q pol f st = (r, ec', st') \<Longrightarrow> unobserved st st'"
  by (auto simp: Update_tcbBundle_def split: prod.splits sum.splits if_splits option.splits
      dest!: verifyBundle_unobserved pcs_fetch_unobserved cache_store_unobserved cache_check_unobserved
         Update_tcbBundle_cached_unobserved
      intro: unobserved_trans)

lemma Update_RakQuote_unobserved:
  "Update_RakQuote w qb st = (r, st') \<Longrightarrow> unobserved st st'"
  by (auto simp: Update_RakQuote_def Let_def split: sum.splits body.splits)

lemma Update_withPCK_unobserved:
  "Update_withPCK w ec rawQuote q st = (r, ec', st') \<Longrightarrow> unobserved st st'"
  by (auto simp: Update_withPCK_def Let_def split: prod.splits sum.splits option.splits
      dest!: Update_tcbBundle_unobserved Update_RakQuote_unobserved
      intro: unobserved_trans)

lemma teeStateECDSA_Update_unobserved:
  "teeStateECDSA_Update w ec report nonce st = (r, ec', st') \<Longrightarrow> unobserved st st'"
  by (auto simp: teeStateECDSA_Update_def Let_def
      split: sum.splits quote_signature.splits certification_data.splits
      dest!: Update_withPCK_unobserved)

lemma teeStateEPID_Update_unobserved:
  "teeStateEPID_Update w report nonce st = (r, st') \<Longrightarrow> unobserved st st'"
  by (auto simp: teeStateEPID_Update_def)

subsection \<open>PPID certification data\<close>

text \<open>Claim C3, as amended. When the decoded quote carries PPID certification data,
  \<^verbatim>\<open>Update\<close> fails with the error that \<^verbatim>\<open>fmt.Errorf\<close> builds from the text
  "PPID certification data not yet supported; please install a quote provider" (a plain
  error, of no type of its own), leaves the TEE state unchanged, and the one call it has
  made is \<^verbatim>\<open>GetQuoteEx\<close>: no PCS fetch and no \<^verbatim>\<open>RakQuote\<close> call.\<close>

theorem C3_ppid:
  assumes "aesm_GetQuoteEx w (tick st) (ec_key ec) report = Inr rawQuote"
      and "quote_UnmarshalBinary w rawQuote = Inr q"
      and "quote_signature q = QuoteSignatureECDSA_P256 (CertificationData_PPID ppid)"
  shows "teeStateECDSA_Update w ec report nonce st =
           (Inl (Errorf ''PPID certification data not yet supported; please install a quote provider''), ec,
            record_event (EvAesmGetQuoteEx (ec_key ec) report) st)"
  using assms by (simp add: teeStateECDSA_Update_def)

text \<open>The theorem at a concrete world.\<close>

theorem C3_ppid_witness:
  "teeStateECDSA_Update w_ppid ec0 [1] ''nonce'' st0 =
     (Inl (Errorf ''PPID certification data not yet supported; please install a quote provider''), ec0,
      record_event (EvAesmGetQuoteEx k_ecdsa [1]) st0)"
proof -
  have a: "aesm_GetQuoteEx w_ppid (tick st0) (ec_key ec0) [1] = Inr [2, 1]"
    by (simp add: world_defs)
  have b: "quote_UnmarshalBinary w_ppid [2, 1] = Inr q_ppid"
    by (simp add: world_defs)
  have c: "quote_signature q_ppid = QuoteSignatureECDSA_P256 (CertificationData_PPID [8])"
    by (simp add: world_defs)
  from C3_ppid [OF a b c, of "''nonce''"] show ?thesis
    by (simp add: ec0_def)
qed

text \<open>The claim as stated, that the error has a type of its own, fails: the error is the string
  error of \<^verbatim>\<open>fmt.Errorf\<close>.\<close>

theorem C3_ppid_error_untyped:
  "fst (teeStateECDSA_Update w_ppid ec0 [1] ''nonce'' st0) =
     Inl (Errorf ''PPID certification data not yet supported; please install a quote provider'')
   \<and> \<not> typed_error (Errorf ''PPID certification data not yet supported; please install a quote provider'')"
  by (simp add: model_defs world_defs)

subsection \<open>Attestation metrics\<close>






subsection \<open>Independence of the nonce\<close>

lemma with_nonce_sel [simp]:
  "registry_ConsensusParameters (with_nonce n w) = registry_ConsensusParameters w"
  "aesm_GetAttestationKeyIDs (with_nonce n w) = aesm_GetAttestationKeyIDs w"
  "aesm_GetTargetInfo (with_nonce n w) = aesm_GetTargetInfo w"
  "aesm_GetQuoteEx (with_nonce n w) = aesm_GetQuoteEx w"
  "quote_UnmarshalBinary (with_nonce n w) = quote_UnmarshalBinary w"
  "VerifyPCK (with_nonce n w) = VerifyPCK w"
  "getQuotePolicies (with_nonce n w) = getQuotePolicies w"
  "quote_Verify (with_nonce n w) = quote_Verify w"
  "pcs_GetTCBBundle (with_nonce n w) = pcs_GetTCBBundle w"
  "time_Now (with_nonce n w) = time_Now w"
  "serviceStore_load (with_nonce n w) = serviceStore_load w"
  "LatestSGXAttestationVersion (with_nonce n w) = LatestSGXAttestationVersion w"
  "conn_Call (with_nonce n w) t req = set_nonce n (conn_Call w t req)"
  by (simp_all add: with_nonce_def)

lemma Init_with_nonce: "teeStateECDSA_Init (with_nonce n w) = teeStateECDSA_Init w"
  by (simp add: teeStateECDSA_Init_def newTcbCache_def fun_eq_iff
      cong: option.case_cong sum.case_cong prod.case_cong if_cong)

lemma verifyBundle_with_nonce: "teeStateECDSA_verifyBundle (with_nonce n w) = teeStateECDSA_verifyBundle w"
  by (simp add: teeStateECDSA_verifyBundle_def fun_eq_iff cong: option.case_cong)

lemma cache_check_with_nonce: "cache_check (with_nonce n w) = cache_check w"
  by (simp add: cache_check_def fun_eq_iff)

lemma cache_store_with_nonce: "cache_store (with_nonce n w) = cache_store w"
  by (simp add: cache_store_def fun_eq_iff)

lemma pcs_fetch_with_nonce: "pcs_fetch (with_nonce n w) = pcs_fetch w"
  by (simp add: pcs_fetch_def fun_eq_iff)

lemma Update_tcbBundle_cached_with_nonce:
  "Update_tcbBundle_cached (with_nonce n w) = Update_tcbBundle_cached w"
  by (simp add: Update_tcbBundle_cached_def fun_eq_iff verifyBundle_with_nonce pcs_fetch_with_nonce
      cache_store_with_nonce cong: option.case_cong sum.case_cong prod.case_cong if_cong)

lemma Update_tcbBundle_with_nonce: "Update_tcbBundle (with_nonce n w) = Update_tcbBundle w"
  by (simp add: Update_tcbBundle_def fun_eq_iff verifyBundle_with_nonce pcs_fetch_with_nonce
      cache_store_with_nonce cache_check_with_nonce Update_tcbBundle_cached_with_nonce
      cong: option.case_cong sum.case_cong prod.case_cong if_cong)

lemma Update_RakQuote_with_nonce: "Update_RakQuote (with_nonce n w) qb st = Update_RakQuote w qb st"
  by (cases "conn_Call w (tick st) (RuntimeCapabilityTEERakQuoteRequest qb)")
     (simp_all add: Update_RakQuote_def set_nonce_def split: body.splits)

lemma Update_withPCK_with_nonce: "Update_withPCK (with_nonce n w) = Update_withPCK w"
  by (simp add: Update_withPCK_def fun_eq_iff Update_tcbBundle_with_nonce Update_RakQuote_with_nonce
      cong: option.case_cong sum.case_cong prod.case_cong if_cong)

lemma Update_with_nonce: "teeStateECDSA_Update (with_nonce n w) = teeStateECDSA_Update w"
  by (simp add: teeStateECDSA_Update_def fun_eq_iff Update_withPCK_with_nonce
      cong: option.case_cong sum.case_cong prod.case_cong if_cong quote_signature.case_cong
        certification_data.case_cong)

lemma Update_ignores_nonce:
  "teeStateECDSA_Update w ec report nonce1 st = teeStateECDSA_Update w ec report nonce2 st"
  by (simp add: teeStateECDSA_Update_def)

lemma teeState_update_ECDSA_nonce:
  "ts_impl ts = Some (ImplECDSA ec) \<Longrightarrow>
   teeState_update (with_nonce n w) ts report nonce st = teeState_update w ts report [] st"
  by (simp add: teeState_update_def Update_with_nonce
      Update_ignores_nonce [of w ec report nonce st "[]"])

lemma updateTargetInfo_ECDSA_nonce:
  "ts_impl ts = Some (ImplECDSA ec) \<Longrightarrow>
   teeState_updateTargetInfo (with_nonce n w) ts st = teeState_updateTargetInfo w ts st"
  by (simp add: teeState_updateTargetInfo_def Init_with_nonce)

lemma updateTargetInfo_stays_ECDSA:
  "ts_impl ts = Some (ImplECDSA ec) \<Longrightarrow> teeState_updateTargetInfo w ts st = (r, ts', st') \<Longrightarrow>
   \<exists>ec'. ts_impl ts' = Some (ImplECDSA ec')"
  by (auto simp: teeState_updateTargetInfo_def split: prod.splits sum.splits)

lemma sgxProvisioner_updateTargetInfo_nonce:
  "sgxProvisioner_updateTargetInfo (with_nonce n w) ti st = sgxProvisioner_updateTargetInfo w ti st"
  by (cases "conn_Call w (tick st) (RuntimeCapabilityTEERakInitRequest ti)")
     (simp_all add: sgxProvisioner_updateTargetInfo_def set_nonce_def split: body.splits)

lemma updateCapabilityTEE_nonce:
  assumes "ts_impl ts = Some (ImplECDSA ec)"
  shows "updateCapabilityTEE (with_nonce n w) ts st = updateCapabilityTEE (with_nonce [] w) ts st"
proof (cases "teeState_updateTargetInfo w ts st")
  case (fields r ts1 st1)
  from updateTargetInfo_stays_ECDSA [OF assms fields] obtain ec1
    where e1: "ts_impl ts1 = Some (ImplECDSA ec1)" by blast
  show ?thesis
  proof (cases r)
    case (Inl err)
    with fields assms show ?thesis
      by (simp add: updateCapabilityTEE_def updateTargetInfo_ECDSA_nonce)
  next
    case (Inr targetInfo)
    show ?thesis
    proof (cases "sgxProvisioner_updateTargetInfo w targetInfo st1")
      case (Pair e2 st2)
      show ?thesis
      proof (cases "conn_Call w (tick st2) RuntimeCapabilityTEERakReportRequest")
        case (Inl e)
        with fields assms Inr Pair show ?thesis
          by (cases e2) (simp_all add: updateCapabilityTEE_def updateTargetInfo_ECDSA_nonce
              sgxProvisioner_updateTargetInfo_nonce set_nonce_def Let_def)
      next
        case (Inr b)
        with fields assms \<open>r = Inr targetInfo\<close> Pair e1 show ?thesis
          by (cases b; cases e2)
             (simp_all add: updateCapabilityTEE_def updateTargetInfo_ECDSA_nonce
              sgxProvisioner_updateTargetInfo_nonce set_nonce_def Let_def teeState_update_ECDSA_nonce)
      qed
    qed
  qed
qed

text \<open>Claim C10. The ECDSA \<^verbatim>\<open>Update\<close> does not depend on the nonce it is given; and for
  an ECDSA TEE state, two worlds that differ only in the nonce of the \<^verbatim>\<open>RakReport\<close>
  responses of the enclave give the same result, the same TEE state and the same
  calls of \<^verbatim>\<open>updateCapabilityTEE\<close>.\<close>

theorem C10_nonce_independent:
  "teeStateECDSA_Update w ec report nonce1 st = teeStateECDSA_Update w ec report nonce2 st
   \<and> (ts_impl ts = Some (ImplECDSA ec) \<longrightarrow>
        updateCapabilityTEE (with_nonce nonce1 w) ts st = updateCapabilityTEE (with_nonce nonce2 w) ts st)"
  using updateCapabilityTEE_nonce [of ts ec nonce1 w st] updateCapabilityTEE_nonce [of ts ec nonce2 w st]
  by (simp add: Update_ignores_nonce [of w ec report nonce1 st nonce2])

text \<open>The theorem at a concrete world.\<close>

theorem C10_nonce_independent_witness:
  "updateCapabilityTEE (with_nonce ''a'' w_happy) ts_ecdsa st0 =
   updateCapabilityTEE (with_nonce ''b'' w_happy) ts_ecdsa st0"
proof -
  have "ts_impl ts_ecdsa = Some (ImplECDSA ec0)" by (simp add: ts_ecdsa_def)
  with C10_nonce_independent [of w_happy ec0 "[]" "''a''" st0 "''b''" ts_ecdsa] show ?thesis
    by simp
qed

subsection \<open>Selection of the implementation at initialization\<close>

lemma ECDSA_Init_succeeds_iff:
  "(\<exists>ti ec. fst (teeStateECDSA_Init w st rid ver) = Inr (ti, ec)) \<longleftrightarrow> ecdsa_init_possible w st"
  by (auto simp: teeStateECDSA_Init_def ecdsa_init_possible_def Let_def
      split: sum.splits option.splits)

lemma ECDSA_Init_no_epid_event:
  "teeStateECDSA_Init w st rid ver = (r, st') \<Longrightarrow>
   filter is_epid_init (trace st') = filter is_epid_init (trace st)"
  by (auto simp: teeStateECDSA_Init_def Let_def split: sum.splits option.splits if_splits)

lemma ECDSA_Init_key:
  "teeStateECDSA_Init w st rid ver = (Inr (ti, ec), st') \<Longrightarrow>
   (\<exists>akeys. aesm_GetAttestationKeyIDs w (Suc (tick st)) = Inr akeys \<and>
      first_ECDSA_key akeys = Some (ec_key ec)) \<and>
   ec_runtimeID ec = rid \<and> ec_version ec = ver \<and>
   ec_tcbCache ec = serviceStore_load w (Suc (Suc (Suc (tick st)))) \<and>
   registry_allows_PCS w st"
  by (auto simp: teeStateECDSA_Init_def Let_def newTcbCache_def registry_allows_PCS_def
      split: sum.splits option.splits if_splits)

lemma ECDSA_Init_fails_unless_possible:
  "\<not> ecdsa_init_possible w st \<Longrightarrow> \<exists>e. fst (teeStateECDSA_Init w st rid ver) = Inl e"
  using ECDSA_Init_succeeds_iff [of w st rid ver]
  by (cases "fst (teeStateECDSA_Init w st rid ver)") auto

text \<open>Claim C5, as amended. \<^verbatim>\<open>init\<close> tries ECDSA first. When the ECDSA
  initialization can succeed (the registry parameters are read and enable PCS, the key
  list is fetched and holds an ECDSA key whose target info is fetched) ECDSA is selected
  and EPID is not tried. In every other case, whatever the reason, the EPID
  initialization is tried once, and EPID is selected exactly when it succeeds. When the
  registry does not enable PCS, ECDSA is not selected.\<close>

theorem C5_init_prefers_ECDSA:
  assumes "ts_impl ts = None" and "teeState_init w ts st = (r, ts', st')"
  shows "(ecdsa_init_possible w st \<longrightarrow>
            impl_kind ts' = Some KindECDSA \<and> \<not> isl r
          \<and> filter is_epid_init (trace st') = filter is_epid_init (trace st))
       \<and> (\<not> ecdsa_init_possible w st \<longrightarrow>
            filter is_epid_init (trace st') = filter is_epid_init (trace st) @ [EvEpidInit]
          \<and> impl_kind ts' = (if isl r then None else Some KindEPID))
       \<and> (\<not> registry_allows_PCS w st \<longrightarrow> impl_kind ts' \<noteq> Some KindECDSA)"
proof (cases "teeStateECDSA_Init w st (ts_runtimeID ts) (ts_version ts)")
  case (Pair r1 st1)
  note ev = ECDSA_Init_no_epid_event [OF Pair]
  show ?thesis
  proof (cases r1)
    case (Inr p)
    obtain ti ec where p: "p = (ti, ec)" by (cases p)
    from Pair Inr p have poss: "ecdsa_init_possible w st"
      using ECDSA_Init_succeeds_iff [of w st "ts_runtimeID ts" "ts_version ts"] by auto
    from ECDSA_Init_key [of w st "ts_runtimeID ts" "ts_version ts" ti ec st1] Pair Inr p
    have pcs: "registry_allows_PCS w st" by simp
    from assms Pair Inr p ev poss pcs show ?thesis
      by (auto simp: teeState_init_def impl_kind_def)
  next
    case (Inl e)
    from Pair Inl have nposs: "\<not> ecdsa_init_possible w st"
      using ECDSA_Init_succeeds_iff [of w st "ts_runtimeID ts" "ts_version ts"] by auto
    note r1 = Inl
    show ?thesis
    proof (cases "epid_Init w (tick st1)")
      case (Inl a)
      with assms Pair r1 have "r = Inl a" "ts' = ts" "st' = record_event EvEpidInit st1"
        by (simp_all add: teeState_init_def teeStateEPID_Init_def)
      with ev nposs assms show ?thesis by (simp add: impl_kind_def)
    next
      case (Inr targetInfo)
      with assms Pair r1 have "r = Inr targetInfo" "ts' = ts\<lparr>ts_impl := Some ImplEPID\<rparr>"
          "st' = record_event EvEpidInit st1"
        by (simp_all add: teeState_init_def teeStateEPID_Init_def)
      with ev nposs assms show ?thesis by (simp add: impl_kind_def)
    qed
  qed
qed

text \<open>The theorem at a concrete world.\<close>

theorem C5_init_prefers_ECDSA_witness:
  "ecdsa_init_possible w_happy st0
   \<and> impl_kind (fst (snd (teeState_init w_happy ts0 st0))) = Some KindECDSA
   \<and> filter is_epid_init (trace (snd (snd (teeState_init w_happy ts0 st0)))) = []"
proof -
  let ?u = "teeState_init w_happy ts0 st0"
  have h: "?u = (fst ?u, fst (snd ?u), snd (snd ?u))" by simp
  have n: "ts_impl ts0 = None" by (simp add: ts0_def)
  have p: "ecdsa_init_possible w_happy st0"
    by (simp add: ecdsa_init_possible_def tick_def world_defs)
  from C5_init_prefers_ECDSA [OF n h] p show ?thesis
    by (simp add: st0_def)
qed

text \<open>The claim as stated fails: the registry enables PCS, the quoting service lists no ECDSA
  key, and EPID is selected.\<close>

theorem C5_epid_with_pcs:
  "registry_allows_PCS w_noecdsa st0
   \<and> impl_kind (fst (snd (teeState_init w_noecdsa ts0 st0))) = Some KindEPID"
  by (simp add: registry_allows_PCS_def impl_kind_def model_defs world_defs)

subsection \<open>What an attestation changes in the TEE state\<close>

lemma same_identity_refl [simp]: "same_identity ec ec"
  by (simp add: same_identity_def)

lemma cache_store_identity: "cache_store w ec b f st = (ec', st') \<Longrightarrow> same_identity ec ec'"
  by (auto simp: cache_store_def same_identity_def)

lemma Update_tcbBundle_cached_identity:
  "Update_tcbBundle_cached w ec q pol f cached refresh st = (r, ec', st') \<Longrightarrow> same_identity ec ec'"
  by (auto simp: Update_tcbBundle_cached_def split: prod.splits sum.splits if_splits option.splits
      dest!: cache_store_identity)

lemma Update_tcbBundle_identity:
  "Update_tcbBundle w ec q pol f st = (r, ec', st') \<Longrightarrow> same_identity ec ec'"
  by (auto simp: Update_tcbBundle_def split: prod.splits sum.splits if_splits option.splits
      dest!: cache_store_identity Update_tcbBundle_cached_identity)

lemma Update_withPCK_identity:
  "Update_withPCK w ec rawQuote q st = (r, ec', st') \<Longrightarrow> same_identity ec ec'"
  by (auto simp: Update_withPCK_def Let_def split: prod.splits sum.splits option.splits
      dest!: Update_tcbBundle_identity)

lemma teeStateECDSA_Update_identity:
  "teeStateECDSA_Update w ec report nonce st = (r, ec', st') \<Longrightarrow> same_identity ec ec'"
  by (auto simp: teeStateECDSA_Update_def Let_def
      split: sum.splits quote_signature.splits certification_data.splits
      dest!: Update_withPCK_identity)

lemma teeState_update_identity:
  assumes "teeState_update w ts report nonce st = (r, ts', st')"
  shows "impl_kind ts' = impl_kind ts \<and> selected_key ts' = selected_key ts
       \<and> ts_runtimeID ts' = ts_runtimeID ts \<and> ts_version ts' = ts_version ts"
proof (cases "ts_impl ts")
  case None
  with assms show ?thesis by (simp add: teeState_update_def)
next
  case (Some impl)
  show ?thesis
  proof (cases impl)
    case (ImplECDSA ec)
    obtain a ec1 st1 where u: "teeStateECDSA_Update w ec report nonce st = (a, ec1, st1)"
      by (cases "teeStateECDSA_Update w ec report nonce st") auto
    from teeStateECDSA_Update_identity [OF u] have "ec_key ec1 = ec_key ec"
      by (simp add: same_identity_def)
    with assms Some ImplECDSA u show ?thesis
      by (auto simp: teeState_update_def impl_kind_def selected_key_def)
  next
    case ImplEPID
    with assms Some show ?thesis
      by (auto simp: teeState_update_def impl_kind_def selected_key_def split: prod.splits)
  qed
qed

lemma teeState_updateTargetInfo_identity:
  "teeState_updateTargetInfo w ts st = (r, ts', st') \<Longrightarrow>
   impl_kind ts' = impl_kind ts \<and> ts_runtimeID ts' = ts_runtimeID ts \<and> ts_version ts' = ts_version ts"
  by (auto simp: teeState_updateTargetInfo_def impl_kind_def
      split: option.splits teeStateImpl.splits prod.splits sum.splits)

lemma updateCapabilityTEE_identity:
  assumes "updateCapabilityTEE w ts st = (c, ts', st')"
  shows "impl_kind ts' = impl_kind ts \<and> ts_runtimeID ts' = ts_runtimeID ts \<and> ts_version ts' = ts_version ts"
proof (cases "teeState_updateTargetInfo w ts st")
  case (fields r ts1 st1)
  note i1 = teeState_updateTargetInfo_identity [OF fields]
  show ?thesis
  proof (cases "ts' = ts1")
    case True
    with i1 show ?thesis by simp
  next
    case False
    with assms fields obtain report nonce st3 a where
      "teeState_update w ts1 report nonce st3 = (a, ts', st')"
      by (auto simp: updateCapabilityTEE_def Let_def
          split: sum.splits option.splits prod.splits body.splits)
    from teeState_update_identity [OF this] i1 show ?thesis by simp
  qed
qed

lemma updateTargetInfo_rekeys:
  assumes "teeState_updateTargetInfo w ts st = (Inr ti, ts1, st1)" and "impl_kind ts = Some KindECDSA"
  shows "\<exists>akeys ec1. aesm_GetAttestationKeyIDs w (Suc (tick st)) = Inr akeys
           \<and> selected_key ts1 = first_ECDSA_key akeys
           \<and> ts_impl ts1 = Some (ImplECDSA ec1)
           \<and> ec_tcbCache ec1 = serviceStore_load w (Suc (Suc (Suc (tick st))))"
  using assms
  by (auto simp: teeState_updateTargetInfo_def impl_kind_def selected_key_def
      split: option.splits teeStateImpl.splits prod.splits sum.splits
      dest!: ECDSA_Init_key)

text \<open>Claim C4, as amended. The implementation (ECDSA or EPID) is selected once: a
  second \<^verbatim>\<open>init\<close> fails with "already initialized" and changes nothing; \<^verbatim>\<open>update\<close>
  changes neither the implementation nor the key, the runtime ID or the version;
  \<^verbatim>\<open>updateCapabilityTEE\<close> changes neither the implementation nor the runtime ID nor the
  version. The key and the cache object are assigned anew by every successful
  \<^verbatim>\<open>updateTargetInfo\<close> of the ECDSA implementation: the key is the first ECDSA key the
  quoting service lists at that moment, the cache a newly constructed one.\<close>

theorem C4_selection_once:
  "(ts_impl ts \<noteq> None \<longrightarrow> teeState_init w ts st = (Inl (Errorf ''already initialized''), ts, st))
   \<and> (teeState_update w ts report nonce st = (r, ts', st') \<longrightarrow>
         impl_kind ts' = impl_kind ts \<and> selected_key ts' = selected_key ts
       \<and> ts_runtimeID ts' = ts_runtimeID ts \<and> ts_version ts' = ts_version ts)
   \<and> (updateCapabilityTEE w ts st = (c, ts2, st2) \<longrightarrow>
         impl_kind ts2 = impl_kind ts \<and> ts_runtimeID ts2 = ts_runtimeID ts \<and> ts_version ts2 = ts_version ts)
   \<and> (teeState_updateTargetInfo w ts st = (Inr ti, ts1, st1) \<and> impl_kind ts = Some KindECDSA \<longrightarrow>
         (\<exists>akeys ec1. aesm_GetAttestationKeyIDs w (Suc (tick st)) = Inr akeys
           \<and> selected_key ts1 = first_ECDSA_key akeys
           \<and> ts_impl ts1 = Some (ImplECDSA ec1)
           \<and> ec_tcbCache ec1 = serviceStore_load w (Suc (Suc (Suc (tick st))))))"
  using teeState_update_identity [of w ts report nonce st r ts' st']
    updateCapabilityTEE_identity [of w ts st c ts2 st2]
    updateTargetInfo_rekeys [of w ts st ti ts1 st1]
  by (auto simp: teeState_init_def)

text \<open>The theorem at a concrete world.\<close>

theorem C4_selection_once_witness:
  "teeState_init w_happy ts_ecdsa st0 = (Inl (Errorf ''already initialized''), ts_ecdsa, st0)
   \<and> impl_kind (fst (snd (updateCapabilityTEE w_happy ts_ecdsa st0))) = Some KindECDSA
   \<and> selected_key (fst (snd (teeState_update w_happy ts_ecdsa [1] ''nonce'' st0))) = Some k_ecdsa"
proof -
  let ?u = "teeState_update w_happy ts_ecdsa [1] ''nonce'' st0"
  let ?c = "updateCapabilityTEE w_happy ts_ecdsa st0"
  let ?t = "teeState_updateTargetInfo w_happy ts_ecdsa st0"
  have i: "ts_impl ts_ecdsa \<noteq> None" by (simp add: ts_ecdsa_def)
  have k: "impl_kind ts_ecdsa = Some KindECDSA" "selected_key ts_ecdsa = Some k_ecdsa"
    by (simp_all add: impl_kind_def selected_key_def ts_ecdsa_def ec0_def)
  from C4_selection_once [of ts_ecdsa w_happy st0 "[1]" "''nonce''" "fst ?u" "fst (snd ?u)" "snd (snd ?u)"
      "fst ?c" "fst (snd ?c)" "snd (snd ?c)" "[0]" "fst (snd ?t)" "snd (snd ?t)"] i k
  show ?thesis by simp
qed

text \<open>The claim as stated fails: the first attestation after \<^verbatim>\<open>init\<close> replaces the key when
  the quoting service lists another one.\<close>

theorem C4_key_reselected:
  "selected_key (fst (snd (teeState_init w_rekey ts0 st0))) = Some k_ecdsa
   \<and> selected_key
       (fst (snd (updateCapabilityTEE w_rekey (fst (snd (teeState_init w_rekey ts0 st0)))
                    (snd (snd (teeState_init w_rekey ts0 st0)))))) = Some k_ecdsa2
   \<and> k_ecdsa \<noteq> k_ecdsa2"
  by (simp add: selected_key_def model_defs world_defs)

subsection \<open>The attestation worker\<close>

lemma unobserved_emitted: "unobserved st st' \<Longrightarrow> emitted st' = emitted st"
  by (simp add: unobserved_def)

lemma emitted_record_event [simp]: "\<not> is_emit e \<Longrightarrow> emitted (record_event e st) = emitted st"
  by (simp add: emitted_def)

lemma emitted_updateAttestationMetrics [simp]:
  "emitted (updateAttestationMetrics rid err st) = emitted st"
  by (simp add: emitted_def updateAttestationMetrics_def Let_def)

lemma ECDSA_Init_emitted:
  "teeStateECDSA_Init w st rid ver = (r, st') \<Longrightarrow> emitted st' = emitted st"
  by (auto simp: teeStateECDSA_Init_def Let_def split: sum.splits option.splits if_splits)

lemma updateTargetInfo_emitted:
  "teeState_updateTargetInfo w ts st = (r, ts', st') \<Longrightarrow> emitted st' = emitted st"
  by (auto simp: teeState_updateTargetInfo_def teeStateEPID_Init_def
      split: option.splits teeStateImpl.splits prod.splits sum.splits
      dest!: ECDSA_Init_emitted)

lemma sgxProvisioner_updateTargetInfo_emitted:
  "sgxProvisioner_updateTargetInfo w ti st = (r, st') \<Longrightarrow> emitted st' = emitted st"
  by (auto simp: sgxProvisioner_updateTargetInfo_def)

lemma teeState_update_emitted:
  "teeState_update w ts report nonce st = (r, ts', st') \<Longrightarrow> emitted st' = emitted st"
  by (auto simp: teeState_update_def
      split: option.splits teeStateImpl.splits prod.splits
      dest!: teeStateECDSA_Update_unobserved teeStateEPID_Update_unobserved unobserved_emitted)

lemma updateCapabilityTEE_emitted:
  assumes "updateCapabilityTEE w ts st = (c, ts', st')"
  shows "emitted st' = emitted st"
proof (cases "teeState_updateTargetInfo w ts st")
  case (fields r ts1 st1)
  note e1 = updateTargetInfo_emitted [OF fields]
  show ?thesis
  proof (cases r)
    case (Inl err)
    with assms fields e1 show ?thesis by (simp add: updateCapabilityTEE_def)
  next
    case (Inr targetInfo)
    show ?thesis
    proof (cases "sgxProvisioner_updateTargetInfo w targetInfo st1")
      case (Pair e2 st2)
      note e2 = sgxProvisioner_updateTargetInfo_emitted [OF Pair]
      show ?thesis
      proof (cases e2)
        case (Some err)
        with assms fields Inr Pair e1 e2 show ?thesis by (simp add: updateCapabilityTEE_def)
      next
        case None
        show ?thesis
        proof (cases "conn_Call w (tick st2) RuntimeCapabilityTEERakReportRequest")
          case (Inl err)
          with assms fields Inr Pair None e1 e2 show ?thesis
            by (auto simp: updateCapabilityTEE_def Let_def)
        next
          case (Inr b)
          with assms fields \<open>r = Inr targetInfo\<close> Pair None e1 e2 show ?thesis
            by (cases b)
               (auto simp: updateCapabilityTEE_def Let_def split: prod.splits sum.splits
                 dest!: teeState_update_emitted)
        qed
      qed
    qed
  qed
qed

lemma worker_returns_only_on_exit:
  "fst (attestationWorker w rs ts st) = Returned \<Longrightarrow> ProcessTerminated \<in> set rs"
proof (induction rs arbitrary: ts st)
  case Nil
  then show ?case by simp
next
  case (Cons r rs)
  show ?case
  proof (cases "r = ProcessTerminated")
    case True
    then show ?thesis by simp
  next
    case False
    let ?st0 = "if r = NotifyUpdateCapabilityTEE then record_event EvTickerReset st else st"
    obtain c ts1 st1 where u: "updateCapabilityTEE w ts ?st0 = (c, ts1, st1)"
      by (cases "updateCapabilityTEE w ts ?st0") auto
    from False Cons.prems u have "\<exists>st2. fst (attestationWorker w rs ts1 st2) = Returned"
      by (cases r; cases c) (auto simp: Let_def)
    with Cons.IH show ?thesis by auto
  qed
qed

text \<open>Claim C7. When the worker has received a ticker tick or a notification and
  \<^verbatim>\<open>updateCapabilityTEE\<close> returns an error, the worker goes on with what it receives
  next, in the state the failed round left; the round has emitted no event; with
  nothing more to receive the worker is waiting in its \<^verbatim>\<open>select\<close>; and it returns only
  when it receives the termination of the process.\<close>

theorem C7_error_keeps_worker:
  assumes "received \<noteq> ProcessTerminated"
      and "updateCapabilityTEE w ts
             (if received = NotifyUpdateCapabilityTEE then record_event EvTickerReset st else st)
           = (Err err, ts1, st1)"
  shows "attestationWorker w (received # rest) ts st = attestationWorker w rest ts1 st1
       \<and> emitted st1 = emitted st
       \<and> attestationWorker w [received] ts st = (Waiting, ts1, st1)
       \<and> (fst (attestationWorker w (received # rest) ts st) = Returned \<longrightarrow> ProcessTerminated \<in> set rest)"
proof -
  have a: "attestationWorker w (received # rs) ts st = attestationWorker w rs ts1 st1" for rs
    using assms by (cases received) (simp_all add: Let_def)
  have b: "emitted st1 = emitted st"
    using updateCapabilityTEE_emitted [OF assms(2)] by (simp split: if_splits)
  from a [of rest] a [of "[]"] b worker_returns_only_on_exit [of w rest ts1 st1]
  show ?thesis by simp
qed

text \<open>The theorem at a concrete world.\<close>

theorem C7_error_keeps_worker_witness:
  "attestationWorker w_ppid [TickerFired, ProcessTerminated] ts_ecdsa st0 =
     attestationWorker w_ppid [ProcessTerminated]
       (fst (snd (updateCapabilityTEE w_ppid ts_ecdsa st0))) (snd (snd (updateCapabilityTEE w_ppid ts_ecdsa st0)))
   \<and> emitted (snd (snd (updateCapabilityTEE w_ppid ts_ecdsa st0))) = []
   \<and> fst (attestationWorker w_ppid [TickerFired] ts_ecdsa st0) = Waiting"
proof -
  let ?c = "updateCapabilityTEE w_ppid ts_ecdsa st0"
  let ?e = "Errorf ''PPID certification data not yet supported; please install a quote provider''"
  have "fst ?c = Err ?e" by (simp add: model_defs world_defs)
  then have h: "updateCapabilityTEE w_ppid ts_ecdsa
                  (if TickerFired = NotifyUpdateCapabilityTEE then record_event EvTickerReset st0 else st0)
                = (Err ?e, fst (snd ?c), snd (snd ?c))"
    by (simp add: prod_eq_iff)
  have n: "TickerFired \<noteq> ProcessTerminated" by simp
  from C7_error_keeps_worker [OF n h, of "[ProcessTerminated]"] show ?thesis
    by (simp add: emitted_def st0_def)
qed

subsection \<open>Selection of the TCB bundle\<close>

lemma record_event_after: "record_event e st = after st [e]"
  by (simp add: record_event_def after_def)

lemma after_after [simp]: "after (after st xs) ys = after st (xs @ ys)"
  by (simp add: after_def)

lemma after_Nil [simp]: "after st [] = st"
  by (simp add: after_def)

lemma tick_after [simp]: "tick (after st evs) = tick st + length evs"
  by (simp add: after_def tick_def)

lemma verifyBundle_ok:
  "quote_Verify w q pol (time_Now w (tick st)) b = None \<Longrightarrow>
   teeStateECDSA_verifyBundle w q pol (Some b) which st = (Inr b, after st [EvQuoteVerify q pol b True])"
  by (simp add: teeStateECDSA_verifyBundle_def record_event_after)

lemma verifyBundle_err:
  "bundle_error w q pol which (time_Now w (tick st)) tcbBundle = Some e \<Longrightarrow>
   teeStateECDSA_verifyBundle w q pol tcbBundle which st = (Inl e, after st (failed_verification q pol tcbBundle))"
  by (auto simp: teeStateECDSA_verifyBundle_def bundle_error_def failed_verification_def
      record_event_after Let_def split: option.splits)

lemma Update_RakQuote_attest_with:
  "(case Update_RakQuote w \<lparr>bundle_quote = rawQuote, bundle_tcb = b\<rparr> st of (r, st') \<Rightarrow> (r, ec, st')) =
   attest_with w rawQuote b ec st"
  by (simp add: Update_RakQuote_def attest_with_def rak_quote_result_def record_event_after Let_def
      split: sum.splits body.splits)


lemma Update_to_selection:
  assumes "aesm_GetQuoteEx w (tick st) (ec_key ec) report = Inr rawQuote"
      and "quote_UnmarshalBinary w rawQuote = Inr q"
      and "quote_signature q = QuoteSignatureECDSA_P256 (CertificationData_PCKCertificateChain chain)"
      and "VerifyPCK w (quote_signature q) (time_Now w (tick st + 1)) = Inr pckInfo"
      and "getQuotePolicies w (tick st + 1) = Inr policies"
  shows "teeStateECDSA_Update w ec report nonce st =
           (case Update_tcbBundle w ec q (policy_of policies) (FMSPC pckInfo)
                   (after st [EvAesmGetQuoteEx (ec_key ec) report, EvGetQuotePolicies]) of
              (Inl err, ec', st2) \<Rightarrow> (Inl err, ec', st2)
            | (Inr tcbBundle, ec', st2) \<Rightarrow> attest_with w rawQuote tcbBundle ec' st2)"
  using assms
  by (simp add: teeStateECDSA_Update_def Update_withPCK_def policy_of_def record_event_after
      Update_RakQuote_attest_with Let_def
      split: prod.splits sum.splits)

lemma Update_tcbBundle_explicit:
  assumes "tcbCache_check (ec_tcbCache ec) (time_Now w (tick s)) f = (cached, refresh)"
  shows
    "(refresh \<and> pcs_GetTCBBundle w (tick s + 1) f = (Some b, ferr)
        \<and> quote_Verify w q pol (time_Now w (tick s + 2)) b = None
      \<longrightarrow> Update_tcbBundle w ec q pol f s =
            (Inr b, ec\<lparr>ec_tcbCache := tcbCache_cache (ec_tcbCache ec) (time_Now w (tick s + 3)) b f\<rparr>,
             after s [EvTcbCacheCheck f, EvPcsGetTCBBundle f, EvQuoteVerify q pol b True,
                      EvTcbCacheStore b f]))
   \<and> (refresh \<and> pcs_GetTCBBundle w (tick s + 1) f = (fresh, ferr)
        \<and> bundle_error w q pol ''fresh'' (time_Now w (tick s + 2)) fresh = Some e1
        \<and> quote_Verify w q pol (time_Now w (tick s + 2 + length (failed_verification q pol fresh))) c = None
        \<and> cached = Some c
      \<longrightarrow> Update_tcbBundle w ec q pol f s =
            (Inr c, ec,
             after s ([EvTcbCacheCheck f, EvPcsGetTCBBundle f] @ failed_verification q pol fresh
                      @ [EvQuoteVerify q pol c True])))
   \<and> (refresh \<and> pcs_GetTCBBundle w (tick s + 1) f = (fresh, ferr)
        \<and> bundle_error w q pol ''fresh'' (time_Now w (tick s + 2)) fresh = Some e1
        \<and> bundle_error w q pol ''cached''
             (time_Now w (tick s + 2 + length (failed_verification q pol fresh))) cached = Some e2
      \<longrightarrow> Update_tcbBundle w ec q pol f s =
            (Inl (Wrapf ''both fresh and cached TCB bundles failed verification, cached error: '' e2), ec,
             after s ([EvTcbCacheCheck f, EvPcsGetTCBBundle f] @ failed_verification q pol fresh
                      @ failed_verification q pol cached)))
   \<and> (\<not> refresh \<and> cached = Some c \<and> quote_Verify w q pol (time_Now w (tick s + 1)) c = None
      \<longrightarrow> Update_tcbBundle w ec q pol f s =
            (Inr c, ec, after s [EvTcbCacheCheck f, EvQuoteVerify q pol c True]))
   \<and> (\<not> refresh \<and> bundle_error w q pol ''cached'' (time_Now w (tick s + 1)) cached = Some e1
        \<and> pcs_GetTCBBundle w (tick s + 1 + length (failed_verification q pol cached)) f = (fresh, Some e2)
      \<longrightarrow> Update_tcbBundle w ec q pol f s =
            (Inl e2, ec,
             after s (EvTcbCacheCheck f # failed_verification q pol cached @ [EvPcsGetTCBBundle f])))
   \<and> (\<not> refresh \<and> bundle_error w q pol ''cached'' (time_Now w (tick s + 1)) cached = Some e1
        \<and> pcs_GetTCBBundle w (tick s + 1 + length (failed_verification q pol cached)) f = (fresh, None)
        \<and> bundle_error w q pol ''downloaded''
             (time_Now w (tick s + 2 + length (failed_verification q pol cached))) fresh = Some e2
      \<longrightarrow> Update_tcbBundle w ec q pol f s =
            (Inl e2, ec,
             after s (EvTcbCacheCheck f # failed_verification q pol cached @ [EvPcsGetTCBBundle f]
                      @ failed_verification q pol fresh)))
   \<and> (\<not> refresh \<and> bundle_error w q pol ''cached'' (time_Now w (tick s + 1)) cached = Some e1
        \<and> pcs_GetTCBBundle w (tick s + 1 + length (failed_verification q pol cached)) f = (Some b, None)
        \<and> quote_Verify w q pol (time_Now w (tick s + 2 + length (failed_verification q pol cached))) b = None
      \<longrightarrow> Update_tcbBundle w ec q pol f s =
            (Inr b,
             ec\<lparr>ec_tcbCache := tcbCache_cache (ec_tcbCache ec)
                   (time_Now w (tick s + 3 + length (failed_verification q pol cached))) b f\<rparr>,
             after s (EvTcbCacheCheck f # failed_verification q pol cached
                      @ [EvPcsGetTCBBundle f, EvQuoteVerify q pol b True, EvTcbCacheStore b f])))"
proof -
  have ok: "quote_Verify w q pol (time_Now w (tick s + k)) x = None \<Longrightarrow> length evs = k \<Longrightarrow>
      teeStateECDSA_verifyBundle w q pol (Some x) which (after s evs) =
        (Inr x, after s (evs @ [EvQuoteVerify q pol x True]))" for k x evs which
    using verifyBundle_ok [of w q pol "after s evs" x which] by simp
  have err: "bundle_error w q pol which (time_Now w (tick s + k)) tb = Some e \<Longrightarrow> length evs = k \<Longrightarrow>
      teeStateECDSA_verifyBundle w q pol tb which (after s evs) =
        (Inl e, after s (evs @ failed_verification q pol tb))" for k tb evs which e
    using verifyBundle_err [of w q pol which "after s evs" tb e] by simp
  have chk: "cache_check w ec f s = ((cached, refresh), after s [EvTcbCacheCheck f])"
    using assms by (simp add: cache_check_def record_event_after)
  have fetch: "pcs_fetch w f (after s evs) = (pcs_GetTCBBundle w (tick s + length evs) f,
      after s (evs @ [EvPcsGetTCBBundle f]))" for evs
    by (simp add: pcs_fetch_def record_event_after)
  have store: "cache_store w ec x f (after s evs) =
      (ec\<lparr>ec_tcbCache := tcbCache_cache (ec_tcbCache ec) (time_Now w (tick s + length evs)) x f\<rparr>,
       after s (evs @ [EvTcbCacheStore x f]))" for x evs
    by (simp add: cache_store_def record_event_after)
  show ?thesis
    by (intro conjI impI; elim conjE)
       (simp_all add: Update_tcbBundle_def Update_tcbBundle_cached_def chk fetch store numeral_3_eq_3
          ok [where k = 2] ok [where k = 1] err [where k = 2] err [where k = 1]
          ok [where k = "2 + length (failed_verification q pol fresh)"]
          err [where k = "2 + length (failed_verification q pol fresh)"]
          ok [where k = "2 + length (failed_verification q pol cached)"]
          err [where k = "2 + length (failed_verification q pol cached)"])
qed

text \<open>Claim C1. An ECDSA \<^verbatim>\<open>Update\<close> that has obtained a quote with a PCK certificate chain,
  verified the chain and read the quote policies selects its TCB bundle as follows, where
  \<open>(cached, refresh)\<close> is the answer of the cache and "verifies" is \<^verbatim>\<open>quote.Verify\<close> of the quote
  of this \<^verbatim>\<open>Update\<close> with its policy and the bundle. When a refresh is due the bundle is fetched
  from the PCS; if it verifies it is stored and the enclave is called with it; otherwise the
  enclave is called with the cached bundle if that verifies, the cache being as it was; and
  when neither verifies \<^verbatim>\<open>Update\<close> fails with the verification error of the cached bundle,
  wrapped by \<^verbatim>\<open>%w\<close>. When no refresh is due the enclave is called with the cached bundle if it
  verifies; otherwise a download is forced: \<^verbatim>\<open>Update\<close> fails with the error of the fetch or with
  the verification error of the downloaded bundle, and a downloaded bundle that verifies is
  stored and used. In every case the result of \<^verbatim>\<open>Update\<close>, the TEE state and the calls made are
  given exactly.\<close>

theorem C1_bundle_selection:
  fixes w :: world and ec :: teeStateECDSA and st :: host_state
  defines "n \<equiv> tick st"
  assumes "aesm_GetQuoteEx w n (ec_key ec) report = Inr rawQuote"
      and "quote_UnmarshalBinary w rawQuote = Inr q"
      and "quote_signature q = QuoteSignatureECDSA_P256 (CertificationData_PCKCertificateChain chain)"
      and "VerifyPCK w (quote_signature q) (time_Now w (n + 1)) = Inr pckInfo"
      and "getQuotePolicies w (n + 1) = Inr policies"
      and "tcbCache_check (ec_tcbCache ec) (time_Now w (n + 2)) (FMSPC pckInfo) = (cached, refresh)"
  defines "f \<equiv> FMSPC pckInfo"
      and "pol \<equiv> policy_of policies"
      and "pre \<equiv> [EvAesmGetQuoteEx (ec_key ec) report, EvGetQuotePolicies, EvTcbCacheCheck (FMSPC pckInfo)]"
  shows
    "(refresh \<and> pcs_GetTCBBundle w (n + 3) f = (Some b, ferr)
        \<and> quote_Verify w q pol (time_Now w (n + 4)) b = None
      \<longrightarrow> teeStateECDSA_Update w ec report nonce st =
            attest_with w rawQuote b
              (ec\<lparr>ec_tcbCache := tcbCache_cache (ec_tcbCache ec) (time_Now w (n + 5)) b f\<rparr>)
              (after st (pre @ [EvPcsGetTCBBundle f, EvQuoteVerify q pol b True, EvTcbCacheStore b f])))
   \<and> (refresh \<and> pcs_GetTCBBundle w (n + 3) f = (fresh, ferr)
        \<and> bundle_error w q pol ''fresh'' (time_Now w (n + 4)) fresh = Some e1
        \<and> quote_Verify w q pol (time_Now w (n + 4 + length (failed_verification q pol fresh))) c = None
        \<and> cached = Some c
      \<longrightarrow> teeStateECDSA_Update w ec report nonce st =
            attest_with w rawQuote c ec
              (after st (pre @ [EvPcsGetTCBBundle f] @ failed_verification q pol fresh
                         @ [EvQuoteVerify q pol c True])))
   \<and> (refresh \<and> pcs_GetTCBBundle w (n + 3) f = (fresh, ferr)
        \<and> bundle_error w q pol ''fresh'' (time_Now w (n + 4)) fresh = Some e1
        \<and> bundle_error w q pol ''cached''
             (time_Now w (n + 4 + length (failed_verification q pol fresh))) cached = Some e2
      \<longrightarrow> teeStateECDSA_Update w ec report nonce st =
            (Inl (Wrapf ''both fresh and cached TCB bundles failed verification, cached error: '' e2), ec,
             after st (pre @ [EvPcsGetTCBBundle f] @ failed_verification q pol fresh
                       @ failed_verification q pol cached)))
   \<and> (\<not> refresh \<and> cached = Some c \<and> quote_Verify w q pol (time_Now w (n + 3)) c = None
      \<longrightarrow> teeStateECDSA_Update w ec report nonce st =
            attest_with w rawQuote c ec (after st (pre @ [EvQuoteVerify q pol c True])))
   \<and> (\<not> refresh \<and> bundle_error w q pol ''cached'' (time_Now w (n + 3)) cached = Some e1
        \<and> pcs_GetTCBBundle w (n + 3 + length (failed_verification q pol cached)) f = (fresh, Some e2)
      \<longrightarrow> teeStateECDSA_Update w ec report nonce st =
            (Inl e2, ec, after st (pre @ failed_verification q pol cached @ [EvPcsGetTCBBundle f])))
   \<and> (\<not> refresh \<and> bundle_error w q pol ''cached'' (time_Now w (n + 3)) cached = Some e1
        \<and> pcs_GetTCBBundle w (n + 3 + length (failed_verification q pol cached)) f = (fresh, None)
        \<and> bundle_error w q pol ''downloaded''
             (time_Now w (n + 4 + length (failed_verification q pol cached))) fresh = Some e2
      \<longrightarrow> teeStateECDSA_Update w ec report nonce st =
            (Inl e2, ec,
             after st (pre @ failed_verification q pol cached @ [EvPcsGetTCBBundle f]
                       @ failed_verification q pol fresh)))
   \<and> (\<not> refresh \<and> bundle_error w q pol ''cached'' (time_Now w (n + 3)) cached = Some e1
        \<and> pcs_GetTCBBundle w (n + 3 + length (failed_verification q pol cached)) f = (Some b, None)
        \<and> quote_Verify w q pol (time_Now w (n + 4 + length (failed_verification q pol cached))) b = None
      \<longrightarrow> teeStateECDSA_Update w ec report nonce st =
            attest_with w rawQuote b
              (ec\<lparr>ec_tcbCache := tcbCache_cache (ec_tcbCache ec)
                    (time_Now w (n + 5 + length (failed_verification q pol cached))) b f\<rparr>)
              (after st (pre @ failed_verification q pol cached
                         @ [EvPcsGetTCBBundle f, EvQuoteVerify q pol b True, EvTcbCacheStore b f])))"
proof -
  let ?s = "after st [EvAesmGetQuoteEx (ec_key ec) report, EvGetQuotePolicies]"
  have t: "tick ?s = n + 2" by (simp add: n_def)
  have u: "teeStateECDSA_Update w ec report nonce st =
           (case Update_tcbBundle w ec q pol f ?s of
              (Inl err, ec', st2) \<Rightarrow> (Inl err, ec', st2)
            | (Inr tcbBundle, ec', st2) \<Rightarrow> attest_with w rawQuote tcbBundle ec' st2)"
    unfolding pol_def f_def
    by (rule Update_to_selection) (use assms(2-6) in \<open>simp_all add: n_def\<close>)
  have c: "tcbCache_check (ec_tcbCache ec) (time_Now w (tick ?s)) f = (cached, refresh)"
    using assms(7) by (simp add: f_def n_def)
  note sel = Update_tcbBundle_explicit [OF c, of b ferr q pol fresh e1 c e2, unfolded t]
  show ?thesis
    unfolding u
    by (intro conjI impI; elim conjE) (use sel in \<open>simp_all add: pre_def f_def eval_nat_numeral\<close>)
qed

text \<open>The theorem at three concrete worlds: a refresh is due and the fresh bundle verifies (it is
  stored and used); the PCS is unreachable and the cached bundle verifies (it is used, the cache
  is as it was); no bundle verifies (the error of the cached bundle, wrapped, and no call to the
  enclave).\<close>

theorem C1_bundle_selection_witness:
  "teeStateECDSA_Update w_happy ec0 [1] ''nonce'' st0 =
     (Inr \<lparr>att_version = 1, att_quote = \<lparr>bundle_quote = [2, 1], bundle_tcb = b_fresh\<rparr>,
           att_height = 5, att_signature = [9]\<rparr>,
      ec0\<lparr>ec_tcbCache := [(f0, \<lparr>entry_bundle = b_fresh, fetched_at = 5, next_refresh_at = 3605\<rparr>)]\<rparr>,
      st0\<lparr>trace :=
        [EvAesmGetQuoteEx k_ecdsa [1], EvGetQuotePolicies, EvTcbCacheCheck f0, EvPcsGetTCBBundle f0,
         EvQuoteVerify q_pck None b_fresh True, EvTcbCacheStore b_fresh f0,
         EvConnCall (RuntimeCapabilityTEERakQuoteRequest \<lparr>bundle_quote = [2, 1], bundle_tcb = b_fresh\<rparr>)]\<rparr>)
   \<and> teeStateECDSA_Update w_offline ec_cached [1] ''nonce'' st0 =
     (Inr \<lparr>att_version = 1, att_quote = \<lparr>bundle_quote = [2, 1], bundle_tcb = b_cached\<rparr>,
           att_height = 5, att_signature = [9]\<rparr>,
      ec_cached,
      st0\<lparr>trace :=
        [EvAesmGetQuoteEx k_ecdsa [1], EvGetQuotePolicies, EvTcbCacheCheck f0, EvPcsGetTCBBundle f0,
         EvQuoteVerify q_pck None b_cached True,
         EvConnCall (RuntimeCapabilityTEERakQuoteRequest \<lparr>bundle_quote = [2, 1], bundle_tcb = b_cached\<rparr>)]\<rparr>)
   \<and> teeStateECDSA_Update w_strict ec_cached [1] ''nonce'' st0 =
     (Inl (Wrapf ''both fresh and cached TCB bundles failed verification, cached error: ''
             (TCBOutOfDateError ''OutOfDate'' [''INTEL-SA-00334''])),
      ec_cached,
      st0\<lparr>trace :=
        [EvAesmGetQuoteEx k_ecdsa [1], EvGetQuotePolicies, EvTcbCacheCheck f0, EvPcsGetTCBBundle f0,
         EvQuoteVerify q_pck None b_fresh False, EvQuoteVerify q_pck None b_cached False]\<rparr>)"
proof -
  let ?pck = "\<lparr>FMSPC = f0, pck_cpusvn = [], pck_pcesvn = 0\<rparr>"
  have a1: "aesm_GetQuoteEx w_happy (tick st0) (ec_key ec0) [1] = Inr [2, 1]"
    "quote_UnmarshalBinary w_happy [2, 1] = Inr q_pck"
    "quote_signature q_pck = QuoteSignatureECDSA_P256 (CertificationData_PCKCertificateChain [7])"
    "VerifyPCK w_happy (quote_signature q_pck) (time_Now w_happy (tick st0 + 1)) = Inr ?pck"
    "getQuotePolicies w_happy (tick st0 + 1) = Inr None"
    "tcbCache_check (ec_tcbCache ec0) (time_Now w_happy (tick st0 + 2)) (FMSPC ?pck) = (None, True)"
    by (simp_all add: tcbCache_check_def tick_def world_defs)
  have a2: "aesm_GetQuoteEx w_offline (tick st0) (ec_key ec_cached) [1] = Inr [2, 1]"
    "quote_UnmarshalBinary w_offline [2, 1] = Inr q_pck"
    "quote_signature q_pck = QuoteSignatureECDSA_P256 (CertificationData_PCKCertificateChain [7])"
    "VerifyPCK w_offline (quote_signature q_pck) (time_Now w_offline (tick st0 + 1)) = Inr ?pck"
    "getQuotePolicies w_offline (tick st0 + 1) = Inr None"
    "tcbCache_check (ec_tcbCache ec_cached) (time_Now w_offline (tick st0 + 2)) (FMSPC ?pck)
       = (Some b_cached, True)"
    by (simp_all add: tcbCache_check_def tick_def world_defs)
  have a3: "aesm_GetQuoteEx w_strict (tick st0) (ec_key ec_cached) [1] = Inr [2, 1]"
    "quote_UnmarshalBinary w_strict [2, 1] = Inr q_pck"
    "quote_signature q_pck = QuoteSignatureECDSA_P256 (CertificationData_PCKCertificateChain [7])"
    "VerifyPCK w_strict (quote_signature q_pck) (time_Now w_strict (tick st0 + 1)) = Inr ?pck"
    "getQuotePolicies w_strict (tick st0 + 1) = Inr None"
    "tcbCache_check (ec_tcbCache ec_cached) (time_Now w_strict (tick st0 + 2)) (FMSPC ?pck)
       = (Some b_cached, True)"
    by (simp_all add: tcbCache_check_def tick_def world_defs)
  have one: "teeStateECDSA_Update w_happy ec0 [1] ''nonce'' st0 =
     attest_with w_happy [2, 1] b_fresh
       (ec0\<lparr>ec_tcbCache := tcbCache_cache (ec_tcbCache ec0) (time_Now w_happy (tick st0 + 5)) b_fresh
               (FMSPC ?pck)\<rparr>)
       (after st0 ([EvAesmGetQuoteEx (ec_key ec0) [1], EvGetQuotePolicies, EvTcbCacheCheck (FMSPC ?pck)]
          @ [EvPcsGetTCBBundle (FMSPC ?pck), EvQuoteVerify q_pck (policy_of None) b_fresh True,
             EvTcbCacheStore b_fresh (FMSPC ?pck)]))"
    using C1_bundle_selection [OF a1, where b = b_fresh and ferr = None,
        THEN conjunct1]
    by (simp add: world_defs)
  have two: "teeStateECDSA_Update w_offline ec_cached [1] ''nonce'' st0 =
     attest_with w_offline [2, 1] b_cached ec_cached
       (after st0 ([EvAesmGetQuoteEx (ec_key ec_cached) [1], EvGetQuotePolicies,
                    EvTcbCacheCheck (FMSPC ?pck)]
          @ [EvPcsGetTCBBundle (FMSPC ?pck)] @ failed_verification q_pck (policy_of None) None
          @ [EvQuoteVerify q_pck (policy_of None) b_cached True]))"
    using C1_bundle_selection [OF a2, where fresh = None
        and ferr = "Some (CollaboratorError ''pcs unreachable'')" and c = b_cached
        and ?e1.0 = "Errorf ''nil bundle is not valid''",
        THEN conjunct2, THEN conjunct1]
    by (simp add: bundle_error_def failed_verification_def world_defs)
  have three: "teeStateECDSA_Update w_strict ec_cached [1] ''nonce'' st0 =
     (Inl (Wrapf ''both fresh and cached TCB bundles failed verification, cached error: ''
             (TCBOutOfDateError ''OutOfDate'' [''INTEL-SA-00334''])),
      ec_cached,
      after st0 ([EvAesmGetQuoteEx (ec_key ec_cached) [1], EvGetQuotePolicies,
                  EvTcbCacheCheck (FMSPC ?pck)]
          @ [EvPcsGetTCBBundle (FMSPC ?pck)] @ failed_verification q_pck (policy_of None) (Some b_fresh)
          @ failed_verification q_pck (policy_of None) (Some b_cached)))"
    using C1_bundle_selection [OF a3, where fresh = "Some b_fresh"
        and ferr = None
        and ?e1.0 = "TCBOutOfDateError ''OutOfDate'' [''INTEL-SA-00334'']"
        and ?e2.0 = "TCBOutOfDateError ''OutOfDate'' [''INTEL-SA-00334'']",
        THEN conjunct2, THEN conjunct2, THEN conjunct1]
    by (simp add: bundle_error_def failed_verification_def world_defs)
  show ?thesis
    unfolding one two three
    by (simp add: attest_with_def rak_quote_result_def after_def policy_of_def failed_verification_def
        tcbCache_cache_def refresh_interval_def safety_margin_def tick_def world_defs)
qed

subsection \<open>Stores into the TCB cache\<close>

lemma verifyBundle_trace:
  assumes "teeStateECDSA_verifyBundle w q pol tcbBundle which st = (r, st')"
  shows "(\<forall>e. r = Inl e \<longrightarrow> trace st' = trace st \<or> (\<exists>b. trace st' = trace st @ [EvQuoteVerify q pol b False]))
       \<and> (\<forall>b. r = Inr b \<longrightarrow> trace st' = trace st @ [EvQuoteVerify q pol b True]
                \<and> quote_Verify w q pol (time_Now w (tick st)) b = None)"
  using assms
  by (auto simp: teeStateECDSA_verifyBundle_def Let_def split: option.splits)

lemma stores_verified_Cons:
  "\<not> is_store e \<Longrightarrow> stores_verified q pol new \<Longrightarrow> stores_verified q pol (e # new)"
proof (cases new)
  case Nil
  assume "\<not> is_store e"
  with Nil show ?thesis by (cases e) simp_all
next
  case (Cons x xs)
  assume "\<not> is_store e" and "stores_verified q pol new"
  with Cons show ?thesis by (cases e; cases x) simp_all
qed

lemma stored_verified_Cons:
  "\<not> is_store e \<Longrightarrow> stored_verified w q pol f ec r ec' new
     \<Longrightarrow> stored_verified w q pol f ec r ec' (e # new)"
  by (simp add: stored_verified_def stores_verified_Cons)

lemma stored_verified_Nil: "stored_verified w q pol f ec r ec []"
  by (simp add: stored_verified_def)

lemma stored_verified_append:
  "\<forall>x\<in>set pre. \<not> is_store x \<Longrightarrow> stored_verified w q pol f ec r ec' new
     \<Longrightarrow> stored_verified w q pol f ec r ec' (pre @ new)"
  by (induction pre) (simp_all add: stored_verified_Cons)

lemma stored_verified_quiet:
  "\<forall>x\<in>set pre. \<not> is_store x \<Longrightarrow> stored_verified w q pol f ec r ec pre"
  using stored_verified_append [of pre w q pol f ec r ec "[]"] by (simp add: stored_verified_Nil)

lemma stored_verified_store:
  assumes "quote_Verify w q pol (time_Now w n) b = None"
  shows "stored_verified w q pol f ec (Inr b)
           (ec\<lparr>ec_tcbCache := tcbCache_cache (ec_tcbCache ec) (time_Now w m) b f\<rparr>)
           [EvQuoteVerify q pol b True, EvTcbCacheStore b f]"
  unfolding stored_verified_def using assms by auto

lemma Update_tcbBundle_cached_stores:
  assumes "Update_tcbBundle_cached w ec q pol f cached refresh st = (r, ec', st')"
  shows "\<exists>new. trace st' = trace st @ new \<and> stored_verified w q pol f ec r ec' new
           \<and> (isl r \<longrightarrow> ec' = ec)"
proof (cases "teeStateECDSA_verifyBundle w q pol cached ''cached'' st")
  case (Pair v st1)
  note vt = verifyBundle_trace [OF Pair]
  show ?thesis
  proof (cases v)
    case (Inr b)
    with assms Pair have res: "r = Inr b" "ec' = ec" "st' = st1"
      by (simp_all add: Update_tcbBundle_cached_def)
    with vt Inr have "trace st' = trace st @ [EvQuoteVerify q pol b True]" by simp
    moreover have "stored_verified w q pol f ec r ec' [EvQuoteVerify q pol b True]"
      using res by (simp add: stored_verified_Cons stored_verified_Nil)
    ultimately show ?thesis using res by auto
  next
    case (Inl e)
    from vt Inl obtain pre where pre: "trace st1 = trace st @ pre" "\<forall>x\<in>set pre. \<not> is_store x"
      by (elim conjE allE [of _ e] impE disjE exE) (simp, force, force)
    show ?thesis
    proof (cases refresh)
      case True
      with assms Pair Inl have res: "isl r" "ec' = ec" "st' = st1"
        by (auto simp: Update_tcbBundle_cached_def)
      with pre have "stored_verified w q pol f ec r ec' pre"
        by (simp add: stored_verified_quiet)
      with pre res show ?thesis by auto
    next
      case False
      obtain fresh ferr st2 where pf: "pcs_fetch w f st1 = ((fresh, ferr), st2)"
        by (cases "pcs_fetch w f st1") auto
      then have t2: "trace st2 = trace st1 @ [EvPcsGetTCBBundle f]"
        by (auto simp: pcs_fetch_def)
      show ?thesis
      proof (cases ferr)
        case (Some err)
        with assms Pair Inl False pf have res: "isl r" "ec' = ec" "st' = st2"
          by (auto simp: Update_tcbBundle_cached_def)
        from pre t2 have "trace st2 = trace st @ (pre @ [EvPcsGetTCBBundle f])" by simp
        moreover from pre res have "stored_verified w q pol f ec r ec' (pre @ [EvPcsGetTCBBundle f])"
          by (simp add: stored_verified_append stored_verified_Cons stored_verified_Nil)
        ultimately show ?thesis using res by auto
      next
        case None
        obtain v2 st3 where vb: "teeStateECDSA_verifyBundle w q pol fresh ''downloaded'' st2 = (v2, st3)"
          by (cases "teeStateECDSA_verifyBundle w q pol fresh ''downloaded'' st2") auto
        note vt2 = verifyBundle_trace [OF vb]
        show ?thesis
        proof (cases v2)
          case (Inl e2)
          with assms Pair \<open>v = Inl e\<close> False pf None vb have res: "isl r" "ec' = ec" "st' = st3"
            by (auto simp: Update_tcbBundle_cached_def)
          from vt2 Inl obtain pre2 where pre2: "trace st3 = trace st2 @ pre2"
              "\<forall>x\<in>set pre2. \<not> is_store x"
            by (elim conjE allE [of _ e2] impE disjE exE) (simp, force, force)
          from pre t2 pre2 have "trace st3 = trace st @ (pre @ EvPcsGetTCBBundle f # pre2)" by simp
          moreover from pre pre2 res
          have "stored_verified w q pol f ec r ec' (pre @ EvPcsGetTCBBundle f # pre2)"
            by (simp add: stored_verified_append stored_verified_Cons stored_verified_quiet)
          ultimately show ?thesis using res by auto
        next
          case (Inr b)
          with assms Pair \<open>v = Inl e\<close> False pf None vb
          have res: "r = Inr b"
              "ec' = ec\<lparr>ec_tcbCache := tcbCache_cache (ec_tcbCache ec) (time_Now w (tick st3)) b f\<rparr>"
              "st' = record_event (EvTcbCacheStore b f) st3"
            by (auto simp: Update_tcbBundle_cached_def cache_store_def)
          from vt2 Inr have v3: "trace st3 = trace st2 @ [EvQuoteVerify q pol b True]"
              "quote_Verify w q pol (time_Now w (tick st2)) b = None" by simp_all
          from pre t2 v3 res
          have "trace st' = trace st @
                  (pre @ EvPcsGetTCBBundle f # [EvQuoteVerify q pol b True, EvTcbCacheStore b f])"
            by simp
          moreover from pre res v3
          have "stored_verified w q pol f ec r ec'
                  (pre @ EvPcsGetTCBBundle f # [EvQuoteVerify q pol b True, EvTcbCacheStore b f])"
            by (simp add: stored_verified_append stored_verified_Cons stored_verified_store)
          ultimately show ?thesis using res by auto
        qed
      qed
    qed
  qed
qed

lemma Update_tcbBundle_stores:
  assumes "Update_tcbBundle w ec q pol f st = (r, ec', st')"
  shows "\<exists>new. trace st' = trace st @ new \<and> stored_verified w q pol f ec r ec' new
           \<and> (isl r \<longrightarrow> ec' = ec)"
proof (cases "cache_check w ec f st")
  case (Pair cr st1)
  obtain cached refresh where cr: "cr = (cached, refresh)" by (cases cr)
  from Pair cr have t1: "trace st1 = trace st @ [EvTcbCacheCheck f]"
    by (auto simp: cache_check_def)
  have cached_case: ?thesis
    if "Update_tcbBundle_cached w ec q pol f cached refresh st2 = (r, ec', st')"
      and "trace st2 = trace st @ pre" and "\<forall>x\<in>set pre. \<not> is_store x" for st2 pre
  proof -
    from Update_tcbBundle_cached_stores [OF that(1)] obtain new
      where new: "trace st' = trace st2 @ new" "stored_verified w q pol f ec r ec' new"
        "isl r \<longrightarrow> ec' = ec" by blast
    from new that have "trace st' = trace st @ (pre @ new)" by simp
    moreover from new that have "stored_verified w q pol f ec r ec' (pre @ new)"
      by (simp add: stored_verified_append)
    ultimately show ?thesis using new(3) by (intro exI conjI)
  qed
  show ?thesis
  proof (cases refresh)
    case False
    with assms Pair cr have "Update_tcbBundle_cached w ec q pol f cached refresh st1 = (r, ec', st')"
      by (simp add: Update_tcbBundle_def)
    from cached_case [OF this t1] show ?thesis by simp
  next
    case True
    obtain fresh ferr st2 where pf: "pcs_fetch w f st1 = ((fresh, ferr), st2)"
      by (cases "pcs_fetch w f st1") auto
    then have t2: "trace st2 = trace st @ [EvTcbCacheCheck f, EvPcsGetTCBBundle f]"
      using t1 by (auto simp: pcs_fetch_def)
    obtain v st3 where vb: "teeStateECDSA_verifyBundle w q pol fresh ''fresh'' st2 = (v, st3)"
      by (cases "teeStateECDSA_verifyBundle w q pol fresh ''fresh'' st2") auto
    note vt = verifyBundle_trace [OF vb]
    show ?thesis
    proof (cases v)
      case (Inr b)
      with assms Pair cr True pf vb
      have res: "r = Inr b"
          "ec' = ec\<lparr>ec_tcbCache := tcbCache_cache (ec_tcbCache ec) (time_Now w (tick st3)) b f\<rparr>"
          "st' = record_event (EvTcbCacheStore b f) st3"
        by (auto simp: Update_tcbBundle_def cache_store_def)
      from vt Inr have v3: "trace st3 = trace st2 @ [EvQuoteVerify q pol b True]"
          "quote_Verify w q pol (time_Now w (tick st2)) b = None" by simp_all
      from t2 v3 res
      have "trace st' = trace st @
              ([EvTcbCacheCheck f, EvPcsGetTCBBundle f] @ [EvQuoteVerify q pol b True, EvTcbCacheStore b f])"
        by simp
      moreover from res v3
      have "stored_verified w q pol f ec r ec'
              ([EvTcbCacheCheck f, EvPcsGetTCBBundle f] @ [EvQuoteVerify q pol b True, EvTcbCacheStore b f])"
        by (intro stored_verified_append) (simp_all add: stored_verified_store)
      ultimately show ?thesis using res(1) by (intro exI conjI) (assumption, assumption, simp)
    next
      case (Inl e)
      with assms Pair cr True pf vb
      have c: "Update_tcbBundle_cached w ec q pol f cached refresh st3 = (r, ec', st')"
        by (simp add: Update_tcbBundle_def)
      from vt Inl obtain pre2 where pre2: "trace st3 = trace st2 @ pre2"
          "\<forall>x\<in>set pre2. \<not> is_store x"
        by (elim conjE allE [of _ e] impE disjE exE) (simp, force, force)
      from t2 pre2 have "trace st3 = trace st @ ([EvTcbCacheCheck f, EvPcsGetTCBBundle f] @ pre2)"
        by simp
      from cached_case [OF c this] pre2 show ?thesis by simp
    qed
  qed
qed

lemma stored_verified_cases:
  assumes "stored_verified w q pol f ec r ec' new"
  shows "(filter is_store new = [] \<longrightarrow> ec' = ec)
       \<and> (\<forall>b f'. EvTcbCacheStore b f' \<in> set new \<longrightarrow>
             r = Inr b \<and> f' = f \<and> (\<exists>n. quote_Verify w q pol (time_Now w n) b = None)
           \<and> (\<exists>m. ec' = ec\<lparr>ec_tcbCache := tcbCache_cache (ec_tcbCache ec) (time_Now w m) b f\<rparr>))"
proof -
  have mem: "EvTcbCacheStore b f' \<in> set (filter is_store new)"
    if "EvTcbCacheStore b f' \<in> set new" for b f'
    using that by simp
  from assms have
    "(ec' = ec \<and> filter is_store new = []) \<or>
     (\<exists>b0 n m. r = Inr b0 \<and> quote_Verify w q pol (time_Now w n) b0 = None
        \<and> ec' = ec\<lparr>ec_tcbCache := tcbCache_cache (ec_tcbCache ec) (time_Now w m) b0 f\<rparr>
        \<and> filter is_store new = [EvTcbCacheStore b0 f])"
    unfolding stored_verified_def by (rule conjunct2)
  then show ?thesis
  proof (elim disjE conjE exE)
    assume u: "ec' = ec" "filter is_store new = []"
    have "EvTcbCacheStore b f' \<notin> set new" for b f'
    proof
      assume "EvTcbCacheStore b f' \<in> set new"
      from mem [OF this] show False unfolding u(2) by simp
    qed
    with u show ?thesis by simp
  next
    fix b0 n m
    assume s: "r = Inr b0" "quote_Verify w q pol (time_Now w n) b0 = None"
      "ec' = ec\<lparr>ec_tcbCache := tcbCache_cache (ec_tcbCache ec) (time_Now w m) b0 f\<rparr>"
      "filter is_store new = [EvTcbCacheStore b0 f]"
    have ex1: "\<exists>n. quote_Verify w q pol (time_Now w n) b0 = None" using s(2) by (rule exI)
    have ex2: "\<exists>m. ec' = ec\<lparr>ec_tcbCache := tcbCache_cache (ec_tcbCache ec) (time_Now w m) b0 f\<rparr>"
      using s(3) by (rule exI)
    have "\<forall>b f'. EvTcbCacheStore b f' \<in> set new \<longrightarrow>
             r = Inr b \<and> f' = f \<and> (\<exists>n. quote_Verify w q pol (time_Now w n) b = None)
           \<and> (\<exists>m. ec' = ec\<lparr>ec_tcbCache := tcbCache_cache (ec_tcbCache ec) (time_Now w m) b f\<rparr>)"
    proof (intro allI impI)
      fix b f'
      assume "EvTcbCacheStore b f' \<in> set new"
      from mem [OF this] have "b = b0" "f' = f" unfolding s(4) by simp_all
      with s(1) ex1 ex2
      show "r = Inr b \<and> f' = f \<and> (\<exists>n. quote_Verify w q pol (time_Now w n) b = None)
           \<and> (\<exists>m. ec' = ec\<lparr>ec_tcbCache := tcbCache_cache (ec_tcbCache ec) (time_Now w m) b f\<rparr>)"
        by (simp only: simp_thms)
    qed
    moreover have "filter is_store new \<noteq> []" unfolding s(4) by simp
    ultimately show ?thesis by (simp only: simp_thms)
  qed
qed

text \<open>Claim C2. The only calls of \<^verbatim>\<open>tcbCache.cache\<close> are those of the bundle
  selection of \<^verbatim>\<open>Update\<close>. In the events of a selection every store comes immediately
  after a successful verification of the same bundle against the quote and the policy
  of this \<^verbatim>\<open>Update\<close>; the stored bundle is the one the selection returns; a selection
  that fails (fetch or verification error) and a selection without a store leave the
  TEE state, with its cache, as it was.\<close>

theorem C2_only_verified_bundles_stored:
  assumes "Update_tcbBundle w ec q pol f st = (r, ec', st')"
  shows "\<exists>new. trace st' = trace st @ new
           \<and> stores_verified q pol new
           \<and> (isl r \<longrightarrow> ec' = ec)
           \<and> (filter is_store new = [] \<longrightarrow> ec' = ec)
           \<and> (\<forall>b f'. EvTcbCacheStore b f' \<in> set new \<longrightarrow>
                 r = Inr b \<and> f' = f \<and> (\<exists>n. quote_Verify w q pol (time_Now w n) b = None)
               \<and> (\<exists>m. ec' = ec\<lparr>ec_tcbCache := tcbCache_cache (ec_tcbCache ec) (time_Now w m) b f\<rparr>))"
proof -
  from Update_tcbBundle_stores [OF assms] obtain new
    where new: "trace st' = trace st @ new" "stored_verified w q pol f ec r ec' new"
      "isl r \<longrightarrow> ec' = ec" by blast
  from new(2) have sv: "stores_verified q pol new"
    unfolding stored_verified_def by (rule conjunct1)
  note rest = stored_verified_cases [OF new(2)]
  show ?thesis
    by (rule exI [of _ new]) (intro conjI new(1) sv new(3) rest [THEN conjunct1] rest [THEN conjunct2])
qed

text \<open>The theorem at a concrete world.\<close>

theorem C2_only_verified_bundles_stored_witness:
  "stores_verified q_pck None (trace (snd (snd (Update_tcbBundle w_happy ec0 q_pck None f0 st0))))
   \<and> EvTcbCacheStore b_fresh f0 \<in> set (trace (snd (snd (Update_tcbBundle w_happy ec0 q_pck None f0 st0))))
   \<and> fst (Update_tcbBundle w_happy ec0 q_pck None f0 st0) = Inr b_fresh"
proof -
  let ?u = "Update_tcbBundle w_happy ec0 q_pck None f0 st0"
  have h: "?u = (fst ?u, fst (snd ?u), snd (snd ?u))" by simp
  have m: "EvTcbCacheStore b_fresh f0 \<in> set (trace (snd (snd ?u)))"
    by (simp add: model_defs world_defs)
  from C2_only_verified_bundles_stored [OF h] obtain new where
    new: "trace (snd (snd ?u)) = trace st0 @ new" "stores_verified q_pck None new"
      "\<forall>b f'. EvTcbCacheStore b f' \<in> set new \<longrightarrow> fst ?u = Inr b \<and> f' = f0
         \<and> (\<exists>n. quote_Verify w_happy q_pck None (time_Now w_happy n) b = None)
         \<and> (\<exists>m. fst (snd ?u) = ec0\<lparr>ec_tcbCache :=
                tcbCache_cache (ec_tcbCache ec0) (time_Now w_happy m) b f0\<rparr>)"
    by blast
  have "trace st0 = []" by (simp add: st0_def)
  with new(1) have eq: "new = trace (snd (snd ?u))" by simp
  from new(3) m eq have "fst ?u = Inr b_fresh" by blast
  with new(2) m eq show ?thesis by simp
qed

subsection \<open>The mock Update\<close>




subsection \<open>Coalescing of notifications\<close>

lemma notifier_sends_full:
  "0 < k \<Longrightarrow> pending \<le> notifier_capacity \<Longrightarrow> notifier_sends k pending = notifier_capacity"
proof (induction k)
  case 0
  then show ?case by simp
next
  case (Suc k)
  show ?case
  proof (cases k)
    case 0
    with Suc.prems show ?thesis
      by (simp add: notifier_sends_def notifier_send_def notifier_capacity_def)
  next
    case (Suc j)
    with Suc.IH Suc.prems have "notifier_sends k pending = notifier_capacity" by simp
    then show ?thesis
      by (simp add: notifier_sends_def notifier_send_def notifier_capacity_def)
  qed
qed

text \<open>Claim C8. The worker has received a ticker tick or a notification \<open>r\<close> and runs
  \<^verbatim>\<open>updateCapabilityTEE\<close>, which does not panic. While it runs, \<open>k\<close> notifications (one or more,
  for instance 100) are sent to the notifier, which held at most one. Then the worker finds
  exactly one notification to receive, and what it does with it is: reset the ticker, run
  \<^verbatim>\<open>updateCapabilityTEE\<close> once more, emit the event if it succeeded, and wait in its
  \<^verbatim>\<open>select\<close>. So \<open>k\<close> notifications during one attestation give one follow-up attestation, and
  the notification resets the periodic timer.\<close>

theorem C8_notifications_coalesce:
  assumes "0 < k" and "pending \<le> notifier_capacity" and "r \<noteq> ProcessTerminated"
      and "updateCapabilityTEE w ts (if r = NotifyUpdateCapabilityTEE then record_event EvTickerReset st else st)
             = (c1, ts1, st1)"
      and "\<forall>p. c1 \<noteq> Panic p"
  shows "notifier_receives (notifier_sends k pending) = [NotifyUpdateCapabilityTEE]
       \<and> attestationWorker w (r # notifier_receives (notifier_sends k pending)) ts st =
           (case updateCapabilityTEE w ts1 (record_event EvTickerReset (emit_result c1 st1)) of
              (c2, ts2, st2) \<Rightarrow> (status_after c2, ts2, emit_result c2 st2))"
proof -
  have one: "notifier_receives (notifier_sends k pending) = [NotifyUpdateCapabilityTEE]"
    using notifier_sends_full [OF assms(1,2)]
    by (simp add: notifier_receives_def notifier_capacity_def)
  have follow: "attestationWorker w [NotifyUpdateCapabilityTEE] ts1 s =
           (case updateCapabilityTEE w ts1 (record_event EvTickerReset s) of
              (c2, ts2, st2) \<Rightarrow> (status_after c2, ts2, emit_result c2 st2))" for s
    by (cases "updateCapabilityTEE w ts1 (record_event EvTickerReset s)"; 
        cases "fst (updateCapabilityTEE w ts1 (record_event EvTickerReset s))")
       (simp_all add: status_after_def emit_result_def)
  have first: "attestationWorker w (r # rs) ts st = attestationWorker w rs ts1 (emit_result c1 st1)" for rs
    using assms(3,4,5) by (cases r; cases c1) (simp_all add: emit_result_def)
  show ?thesis
    unfolding one by (simp only: first follow simp_thms)
qed

text \<open>The theorem at a concrete world: a hundred notifications during the attestation that a
  ticker tick started. One more attestation follows, after one reset of the ticker, and the worker
  has emitted two events, one for each attestation.\<close>

theorem C8_notifications_coalesce_witness:
  "notifier_receives (notifier_sends 100 0) = [NotifyUpdateCapabilityTEE]
   \<and> fst (attestationWorker w_happy (TickerFired # notifier_receives (notifier_sends 100 0)) ts_ecdsa st0)
       = Waiting
   \<and> length (filter is_reset (trace (snd (snd
        (attestationWorker w_happy (TickerFired # notifier_receives (notifier_sends 100 0)) ts_ecdsa st0)))))
       = 1
   \<and> length (emitted (snd (snd
        (attestationWorker w_happy (TickerFired # notifier_receives (notifier_sends 100 0)) ts_ecdsa st0))))
       = 2"
proof -
  let ?c = "updateCapabilityTEE w_happy ts_ecdsa st0"
  have k: "(0::nat) < 100" "(0::nat) \<le> notifier_capacity" "TickerFired \<noteq> ProcessTerminated" by simp_all
  have h: "updateCapabilityTEE w_happy ts_ecdsa
             (if TickerFired = NotifyUpdateCapabilityTEE then record_event EvTickerReset st0 else st0)
           = (fst ?c, fst (snd ?c), snd (snd ?c))" by simp
  have "\<exists>c. fst ?c = Ok c" by (simp add: model_defs world_defs)
  then have p: "\<forall>p. fst ?c \<noteq> Panic p" by auto
  from C8_notifications_coalesce [OF k h p]
  have one: "notifier_receives (notifier_sends 100 0) = [NotifyUpdateCapabilityTEE]" by simp
  show ?thesis
    unfolding one by (simp add: emitted_def model_defs world_defs)
qed

end
